theory Spec2Isabelle
  imports Main "HOL-Library.Word" "HOL-Library.AList"
begin

section \<open>JavaScript values\<close>

text \<open>
  A JavaScript string is a sequence of 16-bit code units; \<open>length\<close> and
  \<open>substring\<close> count code units. The literal \<open>js ''theme''\<close> is the
  string whose code units are the ASCII codes of the characters written.
\<close>

type_synonym jsstring = "16 word list"

definition js :: "string \<Rightarrow> jsstring" where
  "js s = map of_char s"

text \<open>
  Values: the primitives, the data objects the managers store and exchange, and the
  built-in objects that every object and array inherits from. Numbers are modelled by
  integers (floating point is outside the model). A data object is the finite list of
  its own properties in insertion order; its prototype is \<open>Object.prototype\<close>, that
  of an array is \<open>Array.prototype\<close>. Values are immutable: two references to one
  mutable object are outside the model.

  The built-in objects are the two prototypes and the functions they hold, each named
  by the property under which its prototype holds it: \<open>ObjectMethod constructor\<close> is
  the function \<open>Object\<close>, \<open>ArrayMethod push\<close> is \<open>Array.prototype.push\<close>.
\<close>

datatype builtin =
    ObjectPrototype
  | ArrayPrototype
  | ObjectMethod jsstring
  | ArrayMethod jsstring

datatype jsval =
    JUndefined
  | JNull
  | JBool bool
  | JNum int
  | JStr jsstring
  | JArr "jsval list"
  | JObj "(jsstring \<times> jsval) list"
  | JBuiltin builtin

definition digit :: "nat \<Rightarrow> 16 word" where
  "digit d = 0x30 + of_nat d"

function natToString :: "nat \<Rightarrow> jsstring" where
  "natToString n = (if n < 10 then [digit n] else natToString (n div 10) @ [digit (n mod 10)])"
  by pat_completeness auto
termination
  by (relation "measure id") auto

declare natToString.simps [simp del]

definition intToString :: "int \<Rightarrow> jsstring" where
  "intToString i = (if i < 0 then 0x2D # natToString (nat (- i)) else natToString (nat i))"

fun join :: "jsstring \<Rightarrow> jsstring list \<Rightarrow> jsstring" where
  "join sep [] = []"
| "join sep [s] = s"
| "join sep (s # t # ss) = s @ sep @ join sep (t # ss)"

text \<open>
  The function-valued properties of \<open>Object.prototype\<close> and of \<open>Array.prototype\<close>
  (ECMAScript 2023, with the legacy accessor helpers every browser has). Besides
  them \<open>Object.prototype\<close> has the accessor \<open>__proto__\<close> and \<open>Array.prototype\<close>
  has \<open>length\<close>.
\<close>

definition object_prototype_methods :: "jsstring list" where
  "object_prototype_methods =
     map js [''constructor'', ''__defineGetter__'', ''__defineSetter__'', ''hasOwnProperty'',
             ''__lookupGetter__'', ''__lookupSetter__'', ''isPrototypeOf'',
             ''propertyIsEnumerable'', ''toString'', ''valueOf'', ''toLocaleString'']"

definition array_prototype_methods :: "jsstring list" where
  "array_prototype_methods =
     map js [''constructor'', ''at'', ''concat'', ''copyWithin'', ''fill'', ''find'',
             ''findIndex'', ''findLast'', ''findLastIndex'', ''lastIndexOf'', ''pop'', ''push'',
             ''reverse'', ''shift'', ''unshift'', ''slice'', ''sort'', ''splice'', ''includes'',
             ''indexOf'', ''join'', ''keys'', ''entries'', ''values'', ''forEach'', ''filter'',
             ''flat'', ''flatMap'', ''map'', ''every'', ''some'', ''reduce'', ''reduceRight'',
             ''toLocaleString'', ''toString'', ''toReversed'', ''toSorted'', ''toSpliced'',
             ''with'']"

text \<open>The \<open>name\<close> of a built-in function.\<close>

fun function_name :: "builtin \<Rightarrow> jsstring" where
  "function_name (ObjectMethod m) = (if m = js ''constructor'' then js ''Object'' else m)"
| "function_name (ArrayMethod m) = (if m = js ''constructor'' then js ''Array'' else m)"
| "function_name ObjectPrototype = []"
| "function_name ArrayPrototype = []"

text \<open>
  The string conversion applied by template literals and by \<open>localStorage.setItem\<close>.
  A built-in function is printed as V8 prints it.
\<close>

fun ToString :: "jsval \<Rightarrow> jsstring" where
  "ToString JUndefined = js ''undefined''"
| "ToString JNull = js ''null''"
| "ToString (JBool b) = (if b then js ''true'' else js ''false'')"
| "ToString (JNum n) = intToString n"
| "ToString (JStr s) = s"
| "ToString (JArr xs) =
     join (js '','') (map (\<lambda>x. if x = JUndefined \<or> x = JNull then [] else ToString x) xs)"
| "ToString (JObj ps) = js ''[object Object]''"
| "ToString (JBuiltin ObjectPrototype) = js ''[object Object]''"
| "ToString (JBuiltin ArrayPrototype) = []"
| "ToString (JBuiltin f) = js ''function '' @ function_name f @ js ''() { [native code] }''"

text \<open>Truthiness, as tested by \<open>if (v)\<close>, \<open>!v\<close>, \<open>v && ...\<close> and \<open>v || ...\<close>.\<close>

fun truthy :: "jsval \<Rightarrow> bool" where
  "truthy JUndefined = False"
| "truthy JNull = False"
| "truthy (JBool b) = b"
| "truthy (JNum n) = (n \<noteq> 0)"
| "truthy (JStr s) = (s \<noteq> [])"
| "truthy (JArr xs) = True"
| "truthy (JObj ps) = True"
| "truthy (JBuiltin b) = True"

text \<open>\<open>typeof\<close> on the values of the model.\<close>

fun typeof :: "jsval \<Rightarrow> jsstring" where
  "typeof JUndefined = js ''undefined''"
| "typeof JNull = js ''object''"
| "typeof (JBool b) = js ''boolean''"
| "typeof (JNum n) = js ''number''"
| "typeof (JStr s) = js ''string''"
| "typeof (JArr xs) = js ''object''"
| "typeof (JObj ps) = js ''object''"
| "typeof (JBuiltin ObjectPrototype) = js ''object''"
| "typeof (JBuiltin ArrayPrototype) = js ''object''"
| "typeof (JBuiltin f) = js ''function''"

text \<open>The values that are objects (what the setter of \<open>__proto__\<close> accepts, besides \<open>null\<close>).\<close>

fun is_object :: "jsval \<Rightarrow> bool" where
  "is_object (JArr xs) = True"
| "is_object (JObj ps) = True"
| "is_object (JBuiltin b) = True"
| "is_object v = False"

section \<open>Properties and the prototype chain\<close>

text \<open>
  What a lookup of a property name finds in one object: nothing, a value, or the
  accessor \<open>__proto__\<close> of \<open>Object.prototype\<close>, whose getter returns the prototype
  of the object the lookup started from and whose setter replaces it.
\<close>

datatype found = Absent | Value jsval | ProtoAccessor

text \<open>
  The own members of an object: the properties of a data object; for an array its
  elements under the decimal strings of their indices, and \<open>length\<close>; for the two
  prototypes what the engine puts there. The members of functions are not modelled.
\<close>

fun builtin_member :: "builtin \<Rightarrow> jsstring \<Rightarrow> found" where
  "builtin_member ObjectPrototype k =
     (if k \<in> set object_prototype_methods then Value (JBuiltin (ObjectMethod k))
      else if k = js ''__proto__'' then ProtoAccessor
      else Absent)"
| "builtin_member ArrayPrototype k =
     (if k = js ''length'' then Value (JNum 0)
      else if k \<in> set array_prototype_methods then Value (JBuiltin (ArrayMethod k))
      else Absent)"
| "builtin_member f k = Absent"

definition own_member :: "jsval \<Rightarrow> jsstring \<Rightarrow> found" where
  "own_member v k =
     (case v of
        JObj props \<Rightarrow> (case map_of props k of None \<Rightarrow> Absent | Some x \<Rightarrow> Value x)
      | JArr xs \<Rightarrow>
          (if k = js ''length'' then Value (JNum (int (length xs)))
           else (case map_of (zip (map natToString [0..<length xs]) xs) k of
                   None \<Rightarrow> Absent
                 | Some x \<Rightarrow> Value x))
      | JBuiltin b \<Rightarrow> builtin_member b k
      | _ \<Rightarrow> Absent)"

text \<open>The prototype of an object, and the objects a lookup visits, the object itself first.\<close>

fun prototype_of :: "jsval \<Rightarrow> jsval" where
  "prototype_of (JObj ps) = JBuiltin ObjectPrototype"
| "prototype_of (JArr xs) = JBuiltin ArrayPrototype"
| "prototype_of (JBuiltin ArrayPrototype) = JBuiltin ObjectPrototype"
| "prototype_of v = JNull"

fun prototype_chain :: "jsval \<Rightarrow> jsval list" where
  "prototype_chain (JObj ps) = [JObj ps, JBuiltin ObjectPrototype]"
| "prototype_chain (JArr xs) = [JArr xs, JBuiltin ArrayPrototype, JBuiltin ObjectPrototype]"
| "prototype_chain (JBuiltin ArrayPrototype) = [JBuiltin ArrayPrototype, JBuiltin ObjectPrototype]"
| "prototype_chain (JBuiltin b) = [JBuiltin b]"
| "prototype_chain v = []"

fun find_member :: "jsval list \<Rightarrow> jsstring \<Rightarrow> found" where
  "find_member [] k = Absent"
| "find_member (obj # objs) k =
     (case own_member obj k of Absent \<Rightarrow> find_member objs k | f \<Rightarrow> f)"

text \<open>
  \<open>lookup v k\<close> is \<open>None\<close> when \<open>k in v\<close> is false, and \<open>Some\<close> of \<open>v[k]\<close> when it
  is true.
\<close>

definition lookup :: "jsval \<Rightarrow> jsstring \<Rightarrow> jsval option" where
  "lookup v k =
     (case find_member (prototype_chain v) k of
        Absent \<Rightarrow> None
      | Value x \<Rightarrow> Some x
      | ProtoAccessor \<Rightarrow> Some (prototype_of v))"

definition has_in :: "jsstring \<Rightarrow> jsval \<Rightarrow> bool" where
  "has_in k v = (lookup v k \<noteq> None)"

definition member :: "jsval \<Rightarrow> jsstring \<Rightarrow> jsval" where
  "member v k = (case lookup v k of None \<Rightarrow> JUndefined | Some x \<Rightarrow> x)"

section \<open>Completions: normal return or thrown exception\<close>

text \<open>
  A statement either completes normally or throws a value; in both cases the mutations
  made so far stay. \<open>andThen\<close> is sequencing, \<open>try_catch\<close> is
  \<open>try { ... } catch (error) { ... }\<close>, \<open>forEach\<close> is \<open>Array.prototype.forEach\<close>.
\<close>

datatype 's completion = Normal 's | Throw jsval 's

text \<open>An \<open>Error\<close> object, by its message.\<close>

definition Error :: "jsstring \<Rightarrow> jsval" where
  "Error msg = JObj [(js ''message'', JStr msg)]"

fun after :: "'s completion \<Rightarrow> 's" where
  "after (Normal s) = s"
| "after (Throw e s) = s"

fun andThen :: "'s completion \<Rightarrow> ('s \<Rightarrow> 's completion) \<Rightarrow> 's completion" where
  "andThen (Normal s) f = f s"
| "andThen (Throw e s) f = Throw e s"

fun try_catch :: "'s completion \<Rightarrow> (jsval \<Rightarrow> 's \<Rightarrow> 's completion) \<Rightarrow> 's completion" where
  "try_catch (Normal s) h = Normal s"
| "try_catch (Throw e s) h = h e s"

text \<open>\<open>try { ... } finally { ... }\<close>: the second part runs in both cases.\<close>

fun try_finally :: "'s completion \<Rightarrow> ('s \<Rightarrow> 's completion) \<Rightarrow> 's completion" where
  "try_finally (Normal s) f = f s"
| "try_finally (Throw e s) f = (case f s of Normal s' \<Rightarrow> Throw e s' | Throw e' s' \<Rightarrow> Throw e' s')"

fun forEach :: "('a \<Rightarrow> 's \<Rightarrow> 's completion) \<Rightarrow> 'a list \<Rightarrow> 's \<Rightarrow> 's completion" where
  "forEach f [] s = Normal s"
| "forEach f (x # xs) s = andThen (f x s) (forEach f xs)"

section \<open>The browser environment\<close>

text \<open>
  A subscriber callback is a closure: it has an identity (what \<open>indexOf\<close> compares).
  Called with the new and the old value, it may subscribe callbacks and call
  unsubscribe handles, in some order, and then it either returns (\<open>None\<close>) or throws
  a value (\<open>Some e\<close>). What a callback does besides is not modelled; in particular a
  callback that itself calls \<open>setState\<close> or \<open>reset\<close> is outside the model.
\<close>

datatype callback =
  Callback (cb_id: nat) (run: "jsval \<Rightarrow> jsval \<Rightarrow> action list \<times> jsval option")
and action =
    Subscribes jsstring callback
  | Unsubscribes jsstring nat

text \<open>The observable effects, in the order in which they happen.\<close>

datatype effect =
    SetItem jsstring jsstring
  | RemoveItem jsstring
  | Invoke nat jsval jsval
  | ConsoleError jsstring jsval
  | ConsoleWarn jsstring
  | ConsoleLog jsstring
  | Emit jsstring jsval

text \<open>
  The window. \<open>state\<close> holds the own properties of the object \<open>this.state\<close> and
  \<open>state_prototype\<close> its prototype. The arrays of the subscriber registry are mutable
  and shared between the registry and a running \<open>forEach\<close>, so they live in a store:
  \<open>subscribers\<close> maps a key to the address of its array, \<open>arrays\<close> maps an address
  to the array's elements, and \<open>allocated\<close> counts the arrays created so far.
\<close>

record world =
  state :: "(jsstring \<times> jsval) list"
  state_prototype :: jsval
  subscribers :: "jsstring \<rightharpoonup> nat"
  arrays :: "nat \<Rightarrow> callback list"
  allocated :: nat
  localStorage :: "jsstring \<rightharpoonup> jsstring"
  effects :: "effect list"

definition perform :: "effect \<Rightarrow> world \<Rightarrow> world" where
  "perform e w = w\<lparr>effects := effects w @ [e]\<rparr>"

text \<open>
  \<open>localStorage.setItem\<close> stores the string conversion of the value;
  \<open>removeItem\<close> deletes the entry. The storage is taken to accept every write.
\<close>

definition setItem :: "jsstring \<Rightarrow> jsval \<Rightarrow> world \<Rightarrow> world completion" where
  "setItem k v w =
     Normal (perform (SetItem k (ToString v)) (w\<lparr>localStorage := (localStorage w)(k \<mapsto> ToString v)\<rparr>))"

definition removeItem :: "jsstring \<Rightarrow> world \<Rightarrow> world completion" where
  "removeItem k w =
     Normal (perform (RemoveItem k) (w\<lparr>localStorage := (localStorage w)(k := None)\<rparr>))"

definition console_error :: "jsstring \<Rightarrow> jsval \<Rightarrow> world \<Rightarrow> world completion" where
  "console_error msg e w = Normal (perform (ConsoleError msg e) w)"

definition console_warn :: "jsstring \<Rightarrow> world \<Rightarrow> world completion" where
  "console_warn msg w = Normal (perform (ConsoleWarn msg) w)"

definition console_log :: "jsstring \<Rightarrow> world \<Rightarrow> world completion" where
  "console_log msg w = Normal (perform (ConsoleLog msg) w)"

text \<open>
  Modelled from the spec: the EventBus class is not among the sources. Per the spec,
  \<open>emit(eventName, payload)\<close> invokes the registered handlers synchronously and
  swallows and logs any handler exception, so it completes normally; the model records
  the emission and leaves the handlers opaque.
\<close>

definition emit :: "jsstring \<Rightarrow> jsval \<Rightarrow> world \<Rightarrow> world completion" where
  "emit name payload w = Normal (perform (Emit name payload) w)"

section \<open>StateManager\<close>

text \<open>The object literal of the constructor.\<close>

definition constructor_state :: "(jsstring \<times> jsval) list" where
  "constructor_state =
     [(js ''theme'', JStr (js ''light'')),
      (js ''language'', JStr (js ''ko'')),
      (js ''isNavOpen'', JBool False),
      (js ''isTypingAnimationComplete'', JBool False),
      (js ''translations'', JObj [])]"

text \<open>
  Reading \<open>this.state[key]\<close>: an own property, or else what the prototype chain of
  the state object gives.
\<close>

definition state_chain :: "world \<Rightarrow> jsval list" where
  "state_chain w = JObj (state w) # prototype_chain (state_prototype w)"

definition state_get :: "world \<Rightarrow> jsstring \<Rightarrow> jsval" where
  "state_get w key =
     (case find_member (state_chain w) key of
        Absent \<Rightarrow> JUndefined
      | Value x \<Rightarrow> x
      | ProtoAccessor \<Rightarrow> state_prototype w)"

text \<open>
  The assignment \<open>this.state[key] = value\<close>: an own property is overwritten; a name
  that the prototype chain resolves to the accessor \<open>__proto__\<close> goes to its setter,
  which replaces the prototype when the value is an object or \<open>null\<close> and does
  nothing otherwise; any other name becomes a new own property.
\<close>

definition state_set :: "jsstring \<Rightarrow> jsval \<Rightarrow> world \<Rightarrow> world" where
  "state_set key v w =
     (case map_of (state w) key of
        Some x \<Rightarrow> w\<lparr>state := AList.update key v (state w)\<rparr>
      | None \<Rightarrow>
          (case find_member (prototype_chain (state_prototype w)) key of
             ProtoAccessor \<Rightarrow> if is_object v \<or> v = JNull then w\<lparr>state_prototype := v\<rparr> else w
           | _ \<Rightarrow> w\<lparr>state := AList.update key v (state w)\<rparr>))"

text \<open>
  \<open>loadPersistedState\<close>: \<open>getItem\<close> gives \<open>null\<close> for a missing entry, and
  \<open>if (savedTheme)\<close> is also false for the empty string.
\<close>

definition loadPersistedState :: "world \<Rightarrow> world" where
  "loadPersistedState w =
     (let savedTheme = localStorage w (js ''portfolio-theme'');
          savedLang = localStorage w (js ''portfolio-lang'');
          w1 = (case savedTheme of
                  None \<Rightarrow> w
                | Some t \<Rightarrow> if t \<noteq> [] then state_set (js ''theme'') (JStr t) w else w)
      in (case savedLang of
            None \<Rightarrow> w1
          | Some l \<Rightarrow> if l \<noteq> [] then state_set (js ''language'') (JStr l) w1 else w1))"

text \<open>
  The constructor, run on the storage the browser holds at startup. The two event-bus
  listeners it registers (\<open>state:set\<close>, \<open>state:get\<close>) forward to \<open>setState\<close> and
  \<open>getState\<close>.
\<close>

definition StateManager_new :: "(jsstring \<rightharpoonup> jsstring) \<Rightarrow> world" where
  "StateManager_new storage =
     loadPersistedState
       \<lparr>state = constructor_state, state_prototype = JBuiltin ObjectPrototype,
        subscribers = Map.empty, arrays = (\<lambda>a. []), allocated = 0,
        localStorage = storage, effects = []\<rparr>"

text \<open>\<open>getState(key)\<close>: \<open>key ? this.state[key] : this.state\<close>.\<close>

definition getState :: "jsstring \<Rightarrow> world \<Rightarrow> jsval" where
  "getState key w = (if key \<noteq> [] then state_get w key else JObj (state w))"

definition persistState :: "jsstring \<Rightarrow> jsval \<Rightarrow> world \<Rightarrow> world completion" where
  "persistState key v w =
     (if key = js ''theme'' then setItem (js ''portfolio-theme'') v w
      else if key = js ''language'' then setItem (js ''portfolio-lang'') v w
      else Normal w)"

text \<open>
  \<open>subscribe\<close>: a key without an entry first gets a new empty array; then the
  callback is pushed at the end of the key's array.
\<close>

definition subscribe :: "jsstring \<Rightarrow> callback \<Rightarrow> world \<Rightarrow> world" where
  "subscribe key cb w =
     (let w1 = (case subscribers w key of
                  None \<Rightarrow> w\<lparr>subscribers := (subscribers w)(key \<mapsto> allocated w),
                               arrays := (arrays w)(allocated w := []),
                               allocated := Suc (allocated w)\<rparr>
                | Some a \<Rightarrow> w)
      in case subscribers w1 key of
           None \<Rightarrow> w1
         | Some a \<Rightarrow> w1\<lparr>arrays := (arrays w1)(a := arrays w1 a @ [cb])\<rparr>)"

text \<open>\<open>callbacks.indexOf(callback)\<close> and \<open>callbacks.splice(index, 1)\<close>: the first occurrence goes.\<close>

fun remove_first :: "nat \<Rightarrow> callback list \<Rightarrow> callback list" where
  "remove_first i [] = []"
| "remove_first i (c # cs) = (if cb_id c = i then cs else c # remove_first i cs)"

text \<open>
  \<open>unsubscribe\<close>, by the identity of the callback: the array of the key is spliced in
  place, and the entry of the key is deleted when the array has become empty.
\<close>

definition unsubscribe_id :: "jsstring \<Rightarrow> nat \<Rightarrow> world \<Rightarrow> world" where
  "unsubscribe_id key i w =
     (case subscribers w key of
        None \<Rightarrow> w
      | Some a \<Rightarrow>
          (let callbacks' = remove_first i (arrays w a);
               w1 = w\<lparr>arrays := (arrays w)(a := callbacks')\<rparr>
           in if callbacks' = [] then w1\<lparr>subscribers := (subscribers w1)(key := None)\<rparr>
              else w1))"

definition unsubscribe :: "jsstring \<Rightarrow> callback \<Rightarrow> world \<Rightarrow> world" where
  "unsubscribe key cb w = unsubscribe_id key (cb_id cb) w"

definition subscriber_error_message :: "jsstring \<Rightarrow> jsstring" where
  "subscriber_error_message key = js ''Error in state subscriber for '' @ [0x27] @ key @ [0x27, 0x3A]"

text \<open>One call \<open>callback(value, oldValue)\<close>, with what the callback does to the registry.\<close>

fun perform_action :: "action \<Rightarrow> world \<Rightarrow> world" where
  "perform_action (Subscribes key cb) w = subscribe key cb w"
| "perform_action (Unsubscribes key i) w = unsubscribe_id key i w"

definition call :: "callback \<Rightarrow> jsval \<Rightarrow> jsval \<Rightarrow> world \<Rightarrow> world completion" where
  "call cb v oldValue w =
     (let w1 = perform (Invoke (cb_id cb) v oldValue) w;
          w2 = fold perform_action (fst (run cb v oldValue)) w1
      in case snd (run cb v oldValue) of None \<Rightarrow> Normal w2 | Some e \<Rightarrow> Throw e w2)"

text \<open>The body of the \<open>forEach\<close> in \<open>notifySubscribers\<close>: the call, inside its \<open>try/catch\<close>.\<close>

definition notify_callback :: "jsstring \<Rightarrow> jsval \<Rightarrow> jsval \<Rightarrow> callback \<Rightarrow> world \<Rightarrow> world completion" where
  "notify_callback key v oldValue cb w =
     try_catch (call cb v oldValue w)
       (\<lambda>error. console_error (subscriber_error_message key) error)"

text \<open>
  \<open>callbacks.forEach(f)\<close> on the array at address \<open>a\<close>: the length is read once, at
  the start; then for each index below it, in order, the element that the array holds
  at that index at that moment is passed to \<open>f\<close>, and an index that the array no
  longer has is passed over. \<open>forEach_from n k\<close> is the loop with \<open>n\<close> indices to go
  from index \<open>k\<close>.
\<close>

fun forEach_from ::
  "nat \<Rightarrow> nat \<Rightarrow> nat \<Rightarrow> (callback \<Rightarrow> world \<Rightarrow> world completion) \<Rightarrow> world \<Rightarrow> world completion" where
  "forEach_from 0 k a f w = Normal w"
| "forEach_from (Suc n) k a f w =
     (if k < length (arrays w a)
      then andThen (f (arrays w a ! k) w) (forEach_from n (Suc k) a f)
      else forEach_from n (Suc k) a f w)"

definition forEach_array :: "nat \<Rightarrow> (callback \<Rightarrow> world \<Rightarrow> world completion) \<Rightarrow> world \<Rightarrow> world completion" where
  "forEach_array a f w = forEach_from (length (arrays w a)) 0 a f w"

definition notifySubscribers :: "jsstring \<Rightarrow> jsval \<Rightarrow> jsval \<Rightarrow> world \<Rightarrow> world completion" where
  "notifySubscribers key v oldValue w =
     (case subscribers w key of
        None \<Rightarrow> Normal w
      | Some a \<Rightarrow> forEach_array a (notify_callback key v oldValue) w)"

definition changed_payload :: "jsstring \<Rightarrow> jsval \<Rightarrow> jsval \<Rightarrow> jsval" where
  "changed_payload key v oldValue =
     JObj [(js ''key'', JStr key), (js ''value'', v), (js ''oldValue'', oldValue)]"

definition setState :: "jsstring \<Rightarrow> jsval \<Rightarrow> world \<Rightarrow> world completion" where
  "setState key v w =
     (let oldValue = state_get w key;
          w1 = state_set key v w
      in andThen (persistState key v w1) (\<lambda>w2.
         andThen (notifySubscribers key v oldValue w2) (\<lambda>w3.
         emit (js ''state:changed'') (changed_payload key v oldValue) w3)))"

text \<open>The object literal of \<open>reset\<close>.\<close>

definition reset_state :: "(jsstring \<times> jsval) list" where
  "reset_state =
     [(js ''theme'', JStr (js ''light'')),
      (js ''language'', JStr (js ''en'')),
      (js ''isNavOpen'', JBool False),
      (js ''isTypingAnimationComplete'', JBool False),
      (js ''translations'', JObj [])]"

text \<open>
  The body of the \<open>forEach\<close> over \<open>Object.keys(this.state)\<close> in \<open>reset\<close>:
  \<open>this.notifySubscribers(key, this.state[key], undefined)\<close>.
\<close>

definition notify_reset :: "jsstring \<Rightarrow> world \<Rightarrow> world completion" where
  "notify_reset key w = notifySubscribers key (state_get w key) JUndefined w"

text \<open>\<open>reset\<close>: the state becomes a new object, made by the literal.\<close>

definition reset :: "world \<Rightarrow> world completion" where
  "reset w =
     (let w1 = w\<lparr>state := reset_state, state_prototype := JBuiltin ObjectPrototype\<rparr>
      in andThen (removeItem (js ''portfolio-theme'') w1) (\<lambda>w2.
         andThen (removeItem (js ''portfolio-lang'') w2) (\<lambda>w3.
         andThen (forEach notify_reset (map fst (state w3)) w3) (\<lambda>w4.
         emit (js ''state:reset'') JUndefined w4))))"

section \<open>ThemeManager\<close>

definition invalid_theme_message :: "jsval \<Rightarrow> jsstring" where
  "invalid_theme_message theme =
     js ''Invalid theme: '' @ ToString theme @ js ''. Using '' @ [0x27] @ js ''light'' @ [0x27]
       @ js '' as fallback.''"

definition setTheme :: "jsval \<Rightarrow> world \<Rightarrow> world completion" where
  "setTheme theme w =
     (if theme \<noteq> JStr (js ''light'') \<and> theme \<noteq> JStr (js ''dark'')
      then andThen (console_warn (invalid_theme_message theme) w)
             (setState (js ''theme'') (JStr (js ''light'')))
      else setState (js ''theme'') theme w)"

definition toggleTheme :: "world \<Rightarrow> world completion" where
  "toggleTheme w =
     (let currentTheme = getState (js ''theme'') w;
          newTheme = (if currentTheme = JStr (js ''dark'') then JStr (js ''light'') else JStr (js ''dark''))
      in setTheme newTheme w)"

definition getCurrentTheme :: "world \<Rightarrow> jsval" where
  "getCurrentTheme w = getState (js ''theme'') w"

section \<open>I18nManager\<close>

text \<open>\<open>key.split('.')\<close>: the segments between the dots (code unit 0x2E).\<close>

fun split_dot :: "jsstring \<Rightarrow> jsstring list" where
  "split_dot [] = [[]]"
| "split_dot (c # cs) =
     (if c = 0x2E then [] # split_dot cs
      else (case split_dot cs of [] \<Rightarrow> [[c]] | seg # segs \<Rightarrow> (c # seg) # segs))"

text \<open>
  The loop of \<open>t\<close> over the segments; \<open>None\<close> is its early \<open>return fallback\<close>,
  \<open>Some value\<close> the value it holds when the segments are used up.
\<close>

fun t_loop :: "jsstring list \<Rightarrow> jsval \<Rightarrow> jsval option" where
  "t_loop [] v = Some v"
| "t_loop (k # ks) v =
     (if truthy v \<and> typeof v = js ''object'' \<and> has_in k v then t_loop ks (member v k) else None)"

text \<open>
  \<open>t(key, fallback = key)\<close> on the loaded translations (the constant is named
  \<open>I18nManager_t\<close>, as \<open>t\<close> is needed for variables): the default applies when
  the second argument is missing or \<open>undefined\<close>.
\<close>

definition I18nManager_t :: "jsval \<Rightarrow> jsstring \<Rightarrow> jsval \<Rightarrow> jsval" where
  "I18nManager_t bundle key fallback_arg =
     (let fallback = (if fallback_arg = JUndefined then JStr key else fallback_arg)
      in case t_loop (split_dot key) bundle of None \<Rightarrow> fallback | Some v \<Rightarrow> v)"

text \<open>The two hardcoded bundles of \<open>getFallbackTranslations\<close>.\<close>

definition fallback_ko :: jsval where
  "fallback_ko =
     JObj
       [(js ''meta'', JObj
          [(js ''title'', JStr ([0xC774, 0xC6B0, 0xC6A9] @ js '' - '' @ [0xD3EC, 0xD2B8, 0xD3F4, 0xB9AC, 0xC624])),
           (js ''description'', JStr ([0xBC31, 0xC5D4, 0xB4DC] @ js '' '' @ [0xAC1C, 0xBC1C, 0xC790] @ js '' '' @ [0xD3EC, 0xD2B8, 0xD3F4, 0xB9AC, 0xC624])),
           (js ''keywords'', JStr ([0xBC31, 0xC5D4, 0xB4DC] @ js '' '' @ [0xAC1C, 0xBC1C, 0xC790] @ js '', Java, Spring, '' @ [0xD3EC, 0xD2B8, 0xD3F4, 0xB9AC, 0xC624])),
           (js ''favicon'', JStr (js ''./favicon.png''))]),
        (js ''hero'', JObj
          [(js ''line1'', JStr ([0xC548, 0xB155, 0xD558, 0xC138, 0xC694] @ js '','')),
           (js ''line2'', JStr ([0xC774, 0xC6B0, 0xC6A9] @ js '' '' @ [0xC785, 0xB2C8, 0xB2E4] @ js ''.'')),
           (js ''name'', JStr [0xC774, 0xC6B0, 0xC6A9]),
           (js ''subtitle'', JStr ([0xBC31, 0xC5D4, 0xB4DC] @ js '' '' @ [0xAC1C, 0xBC1C, 0xC790])),
           (js ''ctaText'', JStr ([0xD504, 0xB85C, 0xC81D, 0xD2B8] @ js '' '' @ [0xBCF4, 0xAE30])),
           (js ''ctaLink'', JStr (js ''#projects''))]),
        (js ''about'', JObj
          [(js ''title'', JStr [0xC18C, 0xAC1C]),
           (js ''description'', JStr ([0xAE54, 0xB054, 0xD558, 0xACE0] @ js '' '' @ [0xD655, 0xC7A5] @ js '' '' @ [0xAC00, 0xB2A5, 0xD55C] @ js '' '' @ [0xC2DC, 0xC2A4, 0xD15C] @ js '' '' @ [0xAD6C, 0xCD95, 0xC5D0] @ js '' '' @ [0xC5F4, 0xC815, 0xC744] @ js '' '' @ [0xAC00, 0xC9C0, 0xACE0] @ js '' '' @ [0xC788, 0xC2B5, 0xB2C8, 0xB2E4] @ js ''.'')),
           (js ''details'', JArr [JStr ([0xD604, 0xB300, 0xC801, 0xC778] @ js '' '' @ [0xAE30, 0xC220, 0xB85C] @ js '' '' @ [0xC758, 0xBBF8] @ js '' '' @ [0xC788, 0xB294] @ js '' '' @ [0xC194, 0xB8E8, 0xC158, 0xC744] @ js '' '' @ [0xB9CC, 0xB4E4, 0xC5B4, 0xAC11, 0xB2C8, 0xB2E4] @ js ''.'')])]),
        (js ''projects'', JObj
          [(js ''title'', JStr [0xD504, 0xB85C, 0xC81D, 0xD2B8]),
           (js ''items'', JArr [])]),
        (js ''skills'', JObj
          [(js ''title'', JStr ([0xAE30, 0xC220] @ js '' '' @ [0xC2A4, 0xD0DD])),
           (js ''categories'', JArr [])]),
        (js ''blog'', JObj
          [(js ''title'', JStr [0xBE14, 0xB85C, 0xADF8]),
           (js ''posts'', JArr [])]),
        (js ''footer'', JObj
          [(js ''copyright'', JStr ([0x00A9] @ js '' 2025'')),
           (js ''author'', JStr [0xC774, 0xC6B0, 0xC6A9]),
           (js ''authorLink'', JStr (js ''#''))]),
        (js ''ui'', JObj
          [(js ''github'', JStr (js ''GitHub'')),
           (js ''readMore'', JStr ([0xC790, 0xC138, 0xD788] @ js '' '' @ [0xBCF4, 0xAE30]))]),
        (js ''social'', JObj
          [(js ''github'', JStr (js ''#'')),
           (js ''linkedin'', JStr (js ''#''))])]"

definition fallback_en :: jsval where
  "fallback_en =
     JObj
       [(js ''meta'', JObj
          [(js ''title'', JStr (js ''Wooyong Lee - Portfolio'')),
           (js ''description'', JStr (js ''Backend Developer Portfolio'')),
           (js ''keywords'', JStr (js ''backend developer, Java, Spring, portfolio'')),
           (js ''favicon'', JStr (js ''./favicon.png''))]),
        (js ''hero'', JObj
          [(js ''line1'', JStr (js ''Hi, I'' @ [0x0027] @ js ''m'')),
           (js ''line2'', JStr (js ''Wooyong Lee'')),
           (js ''name'', JStr (js ''Wooyong Lee'')),
           (js ''subtitle'', JStr (js ''Backend Developer'')),
           (js ''ctaText'', JStr (js ''View My Work'')),
           (js ''ctaLink'', JStr (js ''#projects''))]),
        (js ''about'', JObj
          [(js ''title'', JStr (js ''About Me'')),
           (js ''description'', JStr (js ''I'' @ [0x0027] @ js ''m passionate about building clean and scalable systems.'')),
           (js ''details'', JArr [JStr (js ''Creating meaningful solutions with modern technologies.'')])]),
        (js ''projects'', JObj
          [(js ''title'', JStr (js ''Projects'')),
           (js ''items'', JArr [])]),
        (js ''skills'', JObj
          [(js ''title'', JStr (js ''Skills'')),
           (js ''categories'', JArr [])]),
        (js ''blog'', JObj
          [(js ''title'', JStr (js ''Blog'')),
           (js ''posts'', JArr [])]),
        (js ''footer'', JObj
          [(js ''copyright'', JStr ([0x00A9] @ js '' 2025'')),
           (js ''author'', JStr (js ''Wooyong Lee'')),
           (js ''authorLink'', JStr (js ''#''))]),
        (js ''ui'', JObj
          [(js ''github'', JStr (js ''GitHub'')),
           (js ''readMore'', JStr (js ''Read More''))]),
        (js ''social'', JObj
          [(js ''github'', JStr (js ''#'')),
           (js ''linkedin'', JStr (js ''#''))])]"

text \<open>
  The I18nManager: its field \<open>this.translations\<close>, its busy flag, and the window it
  shares with the StateManager.
\<close>

record i18n =
  the_translations :: jsval
  isLoading :: bool
  window :: world


text \<open>A call into the StateManager or the event bus from inside the I18nManager.\<close>

definition in_window :: "(world \<Rightarrow> world completion) \<Rightarrow> i18n \<Rightarrow> i18n completion" where
  "in_window f m =
     (case f (window m) of
        Normal w \<Rightarrow> Normal (m\<lparr>window := w\<rparr>)
      | Throw e w \<Rightarrow> Throw e (m\<lparr>window := w\<rparr>))"

definition getCurrentLanguage :: "i18n \<Rightarrow> jsval" where
  "getCurrentLanguage m = getState (js ''language'') (window m)"

definition getFallbackTranslations :: "i18n \<Rightarrow> jsval" where
  "getFallbackTranslations m =
     (if getCurrentLanguage m = JStr (js ''ko'') then fallback_ko else fallback_en)"



text \<open>
  The network, as \<open>loadTranslations\<close> sees it. \<open>fetch(path)\<close> rejects with an
  error, resolves with a response, or never settles; \<open>response.json()\<close> rejects
  (the body is not JSON), resolves with the parsed data, or never settles. There is no
  timeout.
\<close>

datatype body = InvalidJSON jsval | Data jsval | Stalls

record response =
  ok :: bool
  status :: nat
  body :: body

datatype fetched = Rejects jsval | Resolves response | Hangs

type_synonym fetch = "jsstring \<Rightarrow> fetched"

definition possiblePaths :: "jsval \<Rightarrow> jsstring list" where
  "possiblePaths lang =
     [js ''./languages/'' @ ToString lang @ js ''.json'',
      js ''languages/'' @ ToString lang @ js ''.json'',
      js ''/languages/'' @ ToString lang @ js ''.json'']"

text \<open>
  The \<open>for\<close> loop over the candidate paths, on the variables \<open>response\<close> and
  \<open>lastError\<close> (both \<open>undefined\<close> at first): an OK response ends the loop, a
  response that is not OK is kept and recorded as an error, a rejected fetch records
  its error and leaves \<open>response\<close> as it was. The result is \<open>None\<close> when the loop
  waits for a fetch that never settles.
\<close>

fun fetch_loop ::
  "fetch \<Rightarrow> jsstring list \<Rightarrow> response option \<Rightarrow> jsval \<Rightarrow> (response option \<times> jsval) option" where
  "fetch_loop fetch [] response lastError = Some (response, lastError)"
| "fetch_loop fetch (path # paths) response lastError =
     (case fetch path of
        Hangs \<Rightarrow> None
      | Rejects error \<Rightarrow> fetch_loop fetch paths response error
      | Resolves r \<Rightarrow>
          if ok r then Some (Some r, lastError)
          else fetch_loop fetch paths (Some r)
                 (Error (js ''HTTP '' @ natToString (status r) @ js '' for '' @ path)))"

definition load_failure :: "jsval \<Rightarrow> jsval \<Rightarrow> jsval" where
  "load_failure lang lastError =
     (if truthy lastError then lastError
      else Error (js ''Failed to load translations for '' @ ToString lang))"

definition lang_payload :: "jsval \<Rightarrow> (jsstring \<times> jsval) list" where
  "lang_payload lang = [(js ''lang'', lang)]"

text \<open>What the \<open>try\<close> block does once it holds the parsed data.\<close>

definition load_data :: "jsval \<Rightarrow> jsval \<Rightarrow> i18n \<Rightarrow> i18n completion" where
  "load_data lang d m =
     (if \<not> truthy d \<or> typeof d \<noteq> js ''object''
      then Throw (Error (js ''Invalid translation data format'')) m
      else
        andThen (in_window (setState (js ''translations'') d) (m\<lparr>the_translations := d\<rparr>)) (\<lambda>m1.
        andThen (in_window (console_log
                   (js ''Successfully loaded '' @ ToString lang @ js '' translations'')) m1) (\<lambda>m2.
        in_window (emit (js ''i18n:loadingSuccess'')
                   (JObj (lang_payload lang @ [(js ''translations'', the_translations m2)]))) m2)))"

text \<open>
  The \<open>try\<close> block of \<open>loadTranslations\<close>; \<open>None\<close> when it waits for a request
  that never settles.
\<close>

definition load_try :: "fetch \<Rightarrow> jsval \<Rightarrow> i18n \<Rightarrow> i18n completion option" where
  "load_try fetch lang m =
     (case fetch_loop fetch (possiblePaths lang) None JUndefined of
        None \<Rightarrow> None
      | Some (None, lastError) \<Rightarrow> Some (Throw (load_failure lang lastError) m)
      | Some (Some r, lastError) \<Rightarrow>
          if \<not> ok r then Some (Throw (load_failure lang lastError) m)
          else (case body r of
                  Stalls \<Rightarrow> None
                | InvalidJSON error \<Rightarrow> Some (Throw error m)
                | Data d \<Rightarrow> Some (load_data lang d m)))"

text \<open>The \<open>catch\<close> block.\<close>

definition load_catch :: "jsval \<Rightarrow> jsval \<Rightarrow> i18n \<Rightarrow> i18n completion" where
  "load_catch lang error m =
     andThen (in_window (console_error
                (js ''Failed to load '' @ ToString lang @ js '' translations:'') error) m) (\<lambda>m1.
     andThen (in_window (console_warn
                (js ''Using fallback translations for '' @ ToString lang)) m1) (\<lambda>m2.
     (let m3 = m2\<lparr>the_translations := getFallbackTranslations m2\<rparr>
      in andThen (in_window (setState (js ''translations'') (the_translations m3)) m3) (\<lambda>m4.
         in_window (emit (js ''i18n:loadingError'')
                     (JObj (lang_payload lang @ [(js ''error'', error)]))) m4))))"

text \<open>The \<open>finally\<close> block (its removal of a CSS class from the page is not modelled).\<close>

definition load_finally :: "jsval \<Rightarrow> i18n \<Rightarrow> i18n completion" where
  "load_finally lang m =
     in_window (emit (js ''i18n:loadingEnd'') (JObj (lang_payload lang))) (m\<lparr>isLoading := False\<rparr>)"

text \<open>
  \<open>loadTranslations(lang = 'en')\<close>, with its awaits run one after the other, no other
  code running in between. The result is \<open>None\<close> when the call never returns.
\<close>

definition lang_or_default :: "jsval \<Rightarrow> jsval" where
  "lang_or_default lang_arg = (if lang_arg = JUndefined then JStr (js ''en'') else lang_arg)"

definition loadTranslations :: "fetch \<Rightarrow> jsval \<Rightarrow> i18n \<Rightarrow> i18n completion option" where
  "loadTranslations fetch lang_arg m =
     (let lang = lang_or_default lang_arg
      in if isLoading m then Some (Normal m)
         else
           (case in_window (emit (js ''i18n:loadingStart'') (JObj (lang_payload lang)))
                   (m\<lparr>isLoading := True\<rparr>) of
              Throw error m1 \<Rightarrow> Some (Throw error m1)
            | Normal m1 \<Rightarrow>
                (case load_try fetch lang m1 of
                   None \<Rightarrow> None
                 | Some tried \<Rightarrow>
                     Some (try_finally (try_catch tried (load_catch lang)) (load_finally lang)))))"


text \<open>
  Every request that \<open>loadTranslations\<close> makes settles: the fetches of the candidates
  up to the first OK response, and the reading of that response's body.
\<close>

fun settles :: "fetch \<Rightarrow> jsstring list \<Rightarrow> bool" where
  "settles fetch [] = True"
| "settles fetch (path # paths) =
     (case fetch path of
        Hangs \<Rightarrow> False
      | Rejects error \<Rightarrow> settles fetch paths
      | Resolves r \<Rightarrow> if ok r then body r \<noteq> Stalls else settles fetch paths)"










section \<open>BlogManager\<close>

text \<open>
  \<open>html.replace(/<[^>]*>/g, '')\<close>: scanning from the left, a \<open><\<close> (0x3C) that
  has a \<open>>\<close> (0x3E) somewhere after it starts a match that runs to the first such
  \<open>>\<close>, and the match is dropped; any other code unit is kept.
\<close>

function strip_tags :: "jsstring \<Rightarrow> jsstring" where
  "strip_tags [] = []"
| "strip_tags (c # cs) =
     (if c = 0x3C \<and> 0x3E \<in> set cs then strip_tags (tl (dropWhile (\<lambda>x. x \<noteq> 0x3E) cs))
      else c # strip_tags cs)"
  by pat_completeness auto
termination
proof (relation "measure length")
  show "wf (measure length)" by simp
next
  fix c :: "16 word" and cs :: jsstring
  have "length (tl (dropWhile (\<lambda>x. x \<noteq> 0x3E) cs)) \<le> length cs"
    by (simp add: le_trans [OF diff_le_self length_dropWhile_le])
  then show "(tl (dropWhile (\<lambda>x. x \<noteq> 0x3E) cs), c # cs) \<in> measure length" by simp
next
  fix c :: "16 word" and cs :: jsstring
  show "(cs, c # cs) \<in> measure length" by simp
qed

text \<open>The code units that \<open>trim\<close> removes: white space and line terminators.\<close>

definition is_space :: "16 word \<Rightarrow> bool" where
  "is_space c =
     (c \<in> set [0x09, 0x0A, 0x0B, 0x0C, 0x0D, 0x20, 0xA0, 0x1680, 0x2028, 0x2029, 0x202F,
                0x205F, 0x3000, 0xFEFF]
      \<or> (0x2000 \<le> c \<and> c \<le> 0x200A))"

definition trim :: "jsstring \<Rightarrow> jsstring" where
  "trim s = rev (dropWhile is_space (rev (dropWhile is_space s)))"

definition cleanHtmlAndTruncate :: "jsstring \<Rightarrow> nat \<Rightarrow> jsstring" where
  "cleanHtmlAndTruncate html maxLength =
     (let text = trim (strip_tags html)
      in if length text \<le> maxLength then text
         else trim (take maxLength text) @ js ''...'')"

text \<open>
  A \<open>Date\<close> object is either invalid (its time value is \<open>NaN\<close>) or has the
  calendar fields that \<open>getFullYear\<close>, \<open>getMonth\<close> (counted from 0) and
  \<open>getDate\<close> read in local time. How a string is parsed, and the local time zone,
  belong to the engine: the constructor \<open>new Date(dateString)\<close> is a parameter
  \<open>newDate\<close> of the functions below. A getter of an invalid date gives \<open>NaN\<close>,
  here \<open>None\<close>.
\<close>

datatype date = InvalidDate | ValidDate int nat nat

fun getFullYear :: "date \<Rightarrow> int option" where
  "getFullYear InvalidDate = None"
| "getFullYear (ValidDate y m d) = Some y"

fun getMonth :: "date \<Rightarrow> int option" where
  "getMonth InvalidDate = None"
| "getMonth (ValidDate y m d) = Some (int m)"

fun getDate :: "date \<Rightarrow> int option" where
  "getDate InvalidDate = None"
| "getDate (ValidDate y m d) = Some (int d)"

text \<open>\<open>String(n)\<close> and \<open>`${n}`\<close> for such a number, and \<open>s.padStart(n, c)\<close>.\<close>

definition numberToString :: "int option \<Rightarrow> jsstring" where
  "numberToString n = (case n of None \<Rightarrow> js ''NaN'' | Some i \<Rightarrow> intToString i)"

definition padStart :: "jsstring \<Rightarrow> nat \<Rightarrow> 16 word \<Rightarrow> jsstring" where
  "padStart s n c = (if n \<le> length s then s else replicate (n - length s) c @ s)"

text \<open>The value of the \<open>catch\<close> branch of \<open>formatDate\<close>.\<close>

definition unknown_date :: jsstring where
  "unknown_date = [0xB0A0, 0xC9DC] @ js '' '' @ [0xBBF8, 0xC0C1]"

text \<open>
  The \<open>try\<close> block of \<open>formatDate\<close>: \<open>Inr\<close> is the returned string, \<open>Inl\<close>
  a thrown value. None of its operations throws: the \<open>Date\<close> constructor, the three
  getters, \<open>String\<close>, \<open>padStart\<close> and the template literal.
\<close>

definition formatDate_try :: "(jsstring \<Rightarrow> date) \<Rightarrow> jsstring \<Rightarrow> jsval + jsstring" where
  "formatDate_try newDate dateString =
     (let date = newDate dateString;
          year = getFullYear date;
          month = padStart (numberToString (map_option (\<lambda>n. n + 1) (getMonth date))) 2 0x30;
          day = padStart (numberToString (getDate date)) 2 0x30
      in Inr (numberToString year @ js ''.'' @ month @ js ''.'' @ day))"

definition formatDate :: "(jsstring \<Rightarrow> date) \<Rightarrow> jsstring \<Rightarrow> jsstring" where
  "formatDate newDate dateString =
     (case formatDate_try newDate dateString of
        Inr formatted \<Rightarrow> formatted
      | Inl error \<Rightarrow> unknown_date)"

text \<open>
  \<open>extractTags(categories)\<close>. A category that is not a string is read through its
  \<open>name\<close> (\<open>name_of\<close> is \<open>category.name\<close>); reading \<open>name\<close> from \<open>null\<close> or
  \<open>undefined\<close> throws a TypeError (\<open>Inl\<close>).
\<close>

definition name_of :: "jsval \<Rightarrow> jsval" where
  "name_of category =
     (case category of
        JBuiltin (ObjectMethod m) \<Rightarrow> JStr (function_name (ObjectMethod m))
      | JBuiltin (ArrayMethod m) \<Rightarrow> JStr (function_name (ArrayMethod m))
      | _ \<Rightarrow> member category (js ''name''))"

fun tag_of :: "jsval \<Rightarrow> jsval + jsval" where
  "tag_of (JStr s) = Inr (JStr s)"
| "tag_of JUndefined = Inl (Error (js ''TypeError''))"
| "tag_of JNull = Inl (Error (js ''TypeError''))"
| "tag_of category =
     (let name = name_of category
      in Inr (if truthy name then name else JStr (js ''Blog'')))"

text \<open>Running a list of steps in order: the first throw ends it.\<close>

fun collect :: "('e + 'a) list \<Rightarrow> 'e + 'a list" where
  "collect [] = Inr []"
| "collect (Inl e # rs) = Inl e"
| "collect (Inr x # rs) = (case collect rs of Inl e \<Rightarrow> Inl e | Inr xs \<Rightarrow> Inr (x # xs))"

definition extractTags :: "jsval \<Rightarrow> jsval + jsval list" where
  "extractTags categories =
     (case categories of
        JArr cs \<Rightarrow> if cs = [] then Inr [JStr (js ''Blog'')] else collect (map tag_of (take 3 cs))
      | _ \<Rightarrow> Inr [JStr (js ''Blog'')])"

text \<open>
  A feed item, as \<open>parseRssXml\<close> reads it from the XML document: the text of its
  first \<open>title\<close>, \<open>link\<close>, \<open>description\<close> and \<open>pubDate\<close> element (\<open>None\<close>
  when there is no such element) and the texts of its \<open>category\<close> elements.
\<close>

record rss_item =
  item_title :: "jsstring option"
  item_link :: "jsstring option"
  item_description :: "jsstring option"
  item_pubDate :: "jsstring option"
  item_categories :: "jsstring list"

text \<open>\<open>item.querySelector(name)?.textContent || fallback\<close>.\<close>

definition text_or :: "jsstring option \<Rightarrow> jsstring \<Rightarrow> jsstring" where
  "text_or content fallback =
     (case content of None \<Rightarrow> fallback | Some s \<Rightarrow> if s \<noteq> [] then s else fallback)"

record post =
  title :: jsstring
  description :: jsstring
  date :: jsstring
  link :: jsstring
  tags :: "jsval list"
  source :: jsstring

definition maxPosts :: nat where
  "maxPosts = 6"

definition untitled :: jsstring where
  "untitled = [0xC81C, 0xBAA9] @ js '' '' @ [0xC5C6, 0xC74C]"

text \<open>The body of the loop of \<open>parseRssXml\<close>, for one item.\<close>

definition parse_item :: "(jsstring \<Rightarrow> date) \<Rightarrow> rss_item \<Rightarrow> jsval + post" where
  "parse_item newDate item =
     (let title_text = text_or (item_title item) untitled;
          link_text = text_or (item_link item) (js ''#'');
          description_text = text_or (item_description item) [];
          pubDate = text_or (item_pubDate item) [];
          categories = map JStr (item_categories item);
          cleanDescription = cleanHtmlAndTruncate description_text 150;
          formattedDate = formatDate newDate pubDate
      in case extractTags (JArr categories) of
           Inl error \<Rightarrow> Inl error
         | Inr tag_list \<Rightarrow>
             Inr \<lparr>title = title_text, description = cleanDescription, date = formattedDate,
                  link = link_text, tags = tag_list, source = js ''tistory''\<rparr>)"

definition parseRssXml :: "(jsstring \<Rightarrow> date) \<Rightarrow> rss_item list \<Rightarrow> jsval + post list" where
  "parseRssXml newDate items =
     collect (map (parse_item newDate) (take (min (length items) maxPosts) items))"

text \<open>
  A tag is left in a text when some \<open><\<close> has a \<open>>\<close> after it, that is, when the
  pattern \<open><[^>]*>\<close> still matches somewhere.
\<close>

fun has_tag :: "jsstring \<Rightarrow> bool" where
  "has_tag [] = False"
| "has_tag (c # cs) = ((c = 0x3C \<and> 0x3E \<in> set cs) \<or> has_tag cs)"

text \<open>A number below 100 written with two digits.\<close>

definition two_digits :: "nat \<Rightarrow> jsstring" where
  "two_digits n = [digit (n div 10), digit (n mod 10)]"

text \<open>
  The format Y.MM.DD of a valid date whose month and day are calendar values: the year
  in decimal, the month (counted from 1) and the day with two digits each.
\<close>

definition calendar_date :: "date \<Rightarrow> bool" where
  "calendar_date dt = (case dt of InvalidDate \<Rightarrow> False | ValidDate y m d \<Rightarrow> m < 12 \<and> d < 32)"

definition ymd :: "date \<Rightarrow> jsstring" where
  "ymd dt =
     (case dt of
        InvalidDate \<Rightarrow> []
      | ValidDate y m d \<Rightarrow> intToString y @ js ''.'' @ two_digits (m + 1) @ js ''.'' @ two_digits d)"

text \<open>
  A \<open>Date\<close> constructor for the examples. It agrees with the engine on the two strings
  the examples use: the empty string is not a date, and \<open>2024-12-15T10:30:00\<close> (no
  offset, so local time) is the 15th of December 2024.
\<close>

definition example_Date :: "jsstring \<Rightarrow> date" where
  "example_Date s = (if s = js ''2024-12-15T10:30:00'' then ValidDate 2024 11 15 else InvalidDate)"

text \<open>A feed item without a publication date, and one with everything.\<close>

definition item_without_pubDate :: rss_item where
  "item_without_pubDate =
     \<lparr>item_title = Some (js ''Hello''), item_link = Some (js ''https://arex.tistory.com/1''),
      item_description = Some (js ''<p>First post</p>''), item_pubDate = None,
      item_categories = []\<rparr>"

definition item_complete :: rss_item where
  "item_complete =
     \<lparr>item_title = Some (js ''Hello''), item_link = Some (js ''https://arex.tistory.com/1''),
      item_description = Some (js ''<p>First <b>post</b></p> ''),
      item_pubDate = Some (js ''2024-12-15T10:30:00''),
      item_categories = [js ''Java'', js ''Spring'', js ''JPA'', js ''Redis'']\<rparr>"

section \<open>Descriptions of the StateManager's effects\<close>

text \<open>The subscribers registered for a key, in registry order.\<close>

definition subscribers_of :: "world \<Rightarrow> jsstring \<Rightarrow> callback list" where
  "subscribers_of w key = (case subscribers w key of None \<Rightarrow> [] | Some a \<Rightarrow> arrays w a)"

text \<open>What persisting does to the storage, and the storage write it shows.\<close>

definition persisted_storage :: "jsstring \<Rightarrow> jsval \<Rightarrow> (jsstring \<rightharpoonup> jsstring) \<Rightarrow> (jsstring \<rightharpoonup> jsstring)" where
  "persisted_storage key v st =
     (if key = js ''theme'' then st(js ''portfolio-theme'' \<mapsto> ToString v)
      else if key = js ''language'' then st(js ''portfolio-lang'' \<mapsto> ToString v)
      else st)"

definition persist_effects :: "jsstring \<Rightarrow> jsval \<Rightarrow> effect list" where
  "persist_effects key v =
     (if key = js ''theme'' then [SetItem (js ''portfolio-theme'') (ToString v)]
      else if key = js ''language'' then [SetItem (js ''portfolio-lang'') (ToString v)]
      else [])"

text \<open>
  Notifying a list of subscribers, every one in turn: each is invoked with the new and
  the old value, and a thrown value is logged right after the invocation that threw it.
\<close>

fun notify_effects :: "jsstring \<Rightarrow> jsval \<Rightarrow> jsval \<Rightarrow> callback list \<Rightarrow> effect list" where
  "notify_effects key v oldValue [] = []"
| "notify_effects key v oldValue (cb # cbs) =
     Invoke (cb_id cb) v oldValue
       # (case snd (run cb v oldValue) of
            None \<Rightarrow> []
          | Some e \<Rightarrow> [ConsoleError (subscriber_error_message key) e])
       @ notify_effects key v oldValue cbs"

text \<open>A callback that, called with these arguments, leaves the registry alone.\<close>

definition leaves_registry :: "jsval \<Rightarrow> jsval \<Rightarrow> callback \<Rightarrow> bool" where
  "leaves_registry v oldValue cb = (fst (run cb v oldValue) = [])"

text \<open>The invocations among a list of effects: which callback, with which arguments.\<close>

fun invocations :: "effect list \<Rightarrow> (nat \<times> jsval \<times> jsval) list" where
  "invocations [] = []"
| "invocations (Invoke i v oldValue # es) = (i, v, oldValue) # invocations es"
| "invocations (e # es) = invocations es"

text \<open>The errors logged among a list of effects.\<close>

fun logged_errors :: "effect list \<Rightarrow> jsval list" where
  "logged_errors [] = []"
| "logged_errors (ConsoleError msg e # es) = e # logged_errors es"
| "logged_errors (e # es) = logged_errors es"

text \<open>The warnings logged among a list of effects.\<close>

fun logged_warnings :: "effect list \<Rightarrow> jsstring list" where
  "logged_warnings [] = []"
| "logged_warnings (ConsoleWarn msg # es) = msg # logged_warnings es"
| "logged_warnings (e # es) = logged_warnings es"

text \<open>
  Two subscribers of \<open>theme\<close>, subscribed in this order on a new StateManager: the
  first, when called, calls the unsubscribe handle that \<open>subscribe\<close> gave it and then
  throws; the second only returns.
\<close>

definition leaving_subscriber :: callback where
  "leaving_subscriber =
     Callback 0 (\<lambda>v oldValue. ([Unsubscribes (js ''theme'') 0], Some (Error (js ''done''))))"

definition plain_subscriber :: callback where
  "plain_subscriber = Callback 1 (\<lambda>v oldValue. ([], None))"

definition two_subscribers :: world where
  "two_subscribers =
     subscribe (js ''theme'') plain_subscriber
       (subscribe (js ''theme'') leaving_subscriber (StateManager_new Map.empty))"

section \<open>Sequences of operations on the theme\<close>

text \<open>The theme is one of the two values.\<close>

definition theme_ok :: "world \<Rightarrow> bool" where
  "theme_ok w = (getCurrentTheme w = JStr (js ''light'') \<or> getCurrentTheme w = JStr (js ''dark''))"

text \<open>
  What the storage may hold for the theme at startup so that the constructor leaves the
  theme one of the two values: nothing, the empty string, or one of the two names.
\<close>

definition stored_theme_ok :: "(jsstring \<rightharpoonup> jsstring) \<Rightarrow> bool" where
  "stored_theme_ok storage =
     (case storage (js ''portfolio-theme'') of
        None \<Rightarrow> True
      | Some t \<Rightarrow> t = [] \<or> t = js ''light'' \<or> t = js ''dark'')"

text \<open>The calls a client of the two managers can make, and a run of such calls.\<close>

datatype operation =
    SetTheme jsval
  | ToggleTheme
  | SetState jsstring jsval
  | Reset
  | Subscribe jsstring callback
  | Unsubscribe jsstring callback

fun apply_operation :: "operation \<Rightarrow> world \<Rightarrow> world" where
  "apply_operation (SetTheme theme) w = after (setTheme theme w)"
| "apply_operation ToggleTheme w = after (toggleTheme w)"
| "apply_operation (SetState key v) w = after (setState key v w)"
| "apply_operation Reset w = after (reset w)"
| "apply_operation (Subscribe key cb) w = subscribe key cb w"
| "apply_operation (Unsubscribe key cb) w = unsubscribe key cb w"

text \<open>A direct write to the theme of a value that is not one of the two.\<close>

fun writes_invalid_theme :: "operation \<Rightarrow> bool" where
  "writes_invalid_theme (SetState key v) =
     (key = js ''theme'' \<and> v \<noteq> JStr (js ''light'') \<and> v \<noteq> JStr (js ''dark''))"
| "writes_invalid_theme _ = False"

definition run_operations :: "operation list \<Rightarrow> world \<Rightarrow> world" where
  "run_operations ops w = fold apply_operation ops w"

text \<open>A storage whose theme entry is not one of the two names.\<close>

definition stored_blue :: "jsstring \<rightharpoonup> jsstring" where
  "stored_blue = [js ''portfolio-theme'' \<mapsto> js ''blue'']"

section \<open>Code units and string literals\<close>

lemma unat_of_char: "unat (of_char x :: 16 word) = of_char x"
proof -
  have "(of_char x :: nat) mod 256 = of_char x" by (rule of_char_mod_256)
  moreover have "(of_char x :: nat) mod 256 < 256" by (rule mod_less_divisor) simp
  ultimately have "(of_char x :: nat) < 256" by (simp only:)
  then have "(of_char x :: nat) < 65536" by linarith
  then have "(of_char x :: nat) < 2 ^ LENGTH(16)" by (simp only: len_bit0 len_num1 power_numeral) simp
  moreover have "(word_of_nat (of_char x) :: 16 word) = of_char x" by (rule of_nat_of_char)
  ultimately show ?thesis by (rule of_nat_inverse[rotated])
qed

lemma of_char_word_inj: "(of_char c :: 16 word) = of_char d \<longleftrightarrow> c = d"
proof
  assume h: "(of_char c :: 16 word) = of_char d"
  then have "unat (of_char c :: 16 word) = unat (of_char d :: 16 word)" by (simp only:)
  then have "(of_char c :: nat) = of_char d" by (simp only: unat_of_char)
  then show "c = d" by (rule of_char_eqI)
qed (simp only:)

lemma js_eq_iff [simp]: "js a = js b \<longleftrightarrow> a = b"
  unfolding js_def
proof (induction a arbitrary: b)
  case Nil then show ?case by (cases b) simp_all
next
  case (Cons x xs)
  then show ?case by (cases b) (simp_all add: of_char_word_inj)
qed

lemma js_eq_Nil_iff [simp]: "js a = [] \<longleftrightarrow> a = []"
  by (simp add: js_def)

lemma Nil_eq_js_iff [simp]: "[] = js a \<longleftrightarrow> a = []"
  by (simp add: js_def)

section \<open>Properties of the StateManager\<close>

text \<open>
  Only the name \<open>__proto__\<close> reaches the accessor of the prototype chain; under
  every other name an assignment to \<open>this.state[key]\<close> makes or overwrites an own
  property, which is then what a read gives.
\<close>

lemma builtin_member_accessor: "builtin_member b k = ProtoAccessor \<Longrightarrow> k = js ''__proto__''"
  by (cases b) (simp_all split: if_splits)

lemma own_member_accessor: "own_member obj k = ProtoAccessor \<Longrightarrow> k = js ''__proto__''"
  by (cases obj) (auto simp: own_member_def builtin_member_accessor split: option.splits if_splits)

lemma find_member_accessor: "find_member objs k = ProtoAccessor \<Longrightarrow> k = js ''__proto__''"
  by (induction objs) (auto simp: own_member_accessor split: found.splits)

lemma state_set_ordinary:
  "key \<noteq> js ''__proto__'' \<Longrightarrow> state_set key v w = w\<lparr>state := AList.update key v (state w)\<rparr>"
  using find_member_accessor [of "prototype_chain (state_prototype w)" key]
  by (auto simp: state_set_def split: option.splits found.splits)

lemma own_member_update_same: "own_member (JObj (AList.update key v props)) key = Value v"
  by (simp add: own_member_def update_conv')

lemma own_member_update_other:
  "k \<noteq> key \<Longrightarrow> own_member (JObj (AList.update key v props)) k = own_member (JObj props) k"
  by (simp add: own_member_def update_conv')

lemma state_get_set_same:
  "key \<noteq> js ''__proto__'' \<Longrightarrow> state_get (state_set key v w) key = v"
  by (simp add: state_set_ordinary state_get_def state_chain_def own_member_update_same)

lemma state_get_set_other:
  "key \<noteq> js ''__proto__'' \<Longrightarrow> k \<noteq> key \<Longrightarrow> state_get (state_set key v w) k = state_get w k"
  by (simp add: state_set_ordinary state_get_def state_chain_def own_member_update_other
        split: found.splits)

text \<open>
  What the operations of the registry and a notification may change: the registry
  itself and the list of effects, to which they only add, and never a warning. The
  state object and the storage stay as they are.
\<close>

lemma subscribe_registry:
  "\<exists>subs arrs n. subscribe key cb w = w\<lparr>subscribers := subs, arrays := arrs, allocated := n\<rparr>"
proof (cases "subscribers w key")
  case None
  have "subscribe key cb w =
      w\<lparr>subscribers := (subscribers w)(key \<mapsto> allocated w),
        arrays := (arrays w)(allocated w := [cb]),
        allocated := Suc (allocated w)\<rparr>"
    using None by (simp add: subscribe_def)
  then show ?thesis by blast
next
  case (Some a)
  have "subscribe key cb w =
      w\<lparr>subscribers := subscribers w, arrays := (arrays w)(a := arrays w a @ [cb]),
        allocated := allocated w\<rparr>"
    using Some by (simp add: subscribe_def)
  then show ?thesis by blast
qed

lemma unsubscribe_id_registry:
  "\<exists>subs arrs n. unsubscribe_id key i w = w\<lparr>subscribers := subs, arrays := arrs, allocated := n\<rparr>"
proof (cases "subscribers w key")
  case None
  have "unsubscribe_id key i w = w\<lparr>subscribers := subscribers w, arrays := arrays w, allocated := allocated w\<rparr>"
    using None by (simp add: unsubscribe_id_def)
  then show ?thesis by blast
next
  case (Some a)
  show ?thesis
  proof (cases "remove_first i (arrays w a) = []")
    case True
    have "unsubscribe_id key i w =
        w\<lparr>subscribers := (subscribers w)(key := None),
          arrays := (arrays w)(a := remove_first i (arrays w a)), allocated := allocated w\<rparr>"
      using Some True by (simp add: unsubscribe_id_def Let_def)
    then show ?thesis by blast
  next
    case False
    have "unsubscribe_id key i w =
        w\<lparr>subscribers := subscribers w,
          arrays := (arrays w)(a := remove_first i (arrays w a)), allocated := allocated w\<rparr>"
      using Some False by (simp add: unsubscribe_id_def Let_def)
    then show ?thesis by blast
  qed
qed

lemma perform_action_registry:
  "\<exists>subs arrs n. perform_action act w = w\<lparr>subscribers := subs, arrays := arrs, allocated := n\<rparr>"
  by (cases act) (simp_all add: subscribe_registry unsubscribe_id_registry)

lemma fold_perform_action_registry:
  "\<exists>subs arrs n. fold perform_action acts w = w\<lparr>subscribers := subs, arrays := arrs, allocated := n\<rparr>"
proof (induction acts arbitrary: w)
  case Nil
  have "w = w\<lparr>subscribers := subscribers w, arrays := arrays w, allocated := allocated w\<rparr>" by simp
  then show ?case by (metis fold_simps(1))
next
  case (Cons act acts)
  obtain s1 a1 n1 where 1: "perform_action act w = w\<lparr>subscribers := s1, arrays := a1, allocated := n1\<rparr>"
    using perform_action_registry by blast
  obtain s2 a2 n2 where 2: "fold perform_action acts (perform_action act w)
      = (perform_action act w)\<lparr>subscribers := s2, arrays := a2, allocated := n2\<rparr>"
    using Cons.IH by blast
  have "fold perform_action (act # acts) w = w\<lparr>subscribers := s2, arrays := a2, allocated := n2\<rparr>"
    using 1 2 by simp
  then show ?case by blast
qed

lemma notify_callback_registry:
  "\<exists>subs arrs n. notify_callback key v oldValue cb w =
     Normal (w\<lparr>subscribers := subs, arrays := arrs, allocated := n,
               effects := effects w @ notify_effects key v oldValue [cb]\<rparr>)"
proof -
  let ?w1 = "w\<lparr>effects := effects w @ [Invoke (cb_id cb) v oldValue]\<rparr>"
  obtain s a n where f: "fold perform_action (fst (run cb v oldValue)) ?w1
      = ?w1\<lparr>subscribers := s, arrays := a, allocated := n\<rparr>"
    using fold_perform_action_registry by blast
  have "notify_callback key v oldValue cb w =
     Normal (w\<lparr>subscribers := s, arrays := a, allocated := n,
               effects := effects w @ notify_effects key v oldValue [cb]\<rparr>)"
    by (cases "snd (run cb v oldValue)")
       (simp_all add: notify_callback_def call_def Let_def f console_error_def perform_def)
  then show ?thesis by blast
qed


lemma logged_warnings_append:
  "logged_warnings (xs @ ys) = logged_warnings xs @ logged_warnings ys"
  by (induction xs rule: logged_warnings.induct) simp_all

lemma logged_warnings_notify_effects: "logged_warnings (notify_effects key v oldValue cbs) = []"
proof (induction cbs)
  case Nil
  show ?case by simp
next
  case (Cons cb cbs)
  then show ?case by (cases "snd (run cb v oldValue)") simp_all
qed

lemma forEach_from_registry:
  "\<exists>subs arrs m es. forEach_from n k a (notify_callback key v oldValue) w =
       Normal (w\<lparr>subscribers := subs, arrays := arrs, allocated := m, effects := effects w @ es\<rparr>)
     \<and> logged_warnings es = []"
proof (induction n arbitrary: k w)
  case 0
  have "forEach_from 0 k a (notify_callback key v oldValue) w =
       Normal (w\<lparr>subscribers := subscribers w, arrays := arrays w, allocated := allocated w,
                 effects := effects w @ []\<rparr>)" by simp
  moreover have "logged_warnings [] = []" by simp
  ultimately show ?case by blast
next
  case (Suc n)
  show ?case
  proof (cases "k < length (arrays w a)")
    case False
    then have "forEach_from (Suc n) k a (notify_callback key v oldValue) w
             = forEach_from n (Suc k) a (notify_callback key v oldValue) w" by simp
    with Suc.IH [of "Suc k" w] show ?thesis by simp
  next
    case True
    let ?cb = "arrays w a ! k"
    obtain s1 a1 n1 where one: "notify_callback key v oldValue ?cb w =
        Normal (w\<lparr>subscribers := s1, arrays := a1, allocated := n1,
                  effects := effects w @ notify_effects key v oldValue [?cb]\<rparr>)"
      using notify_callback_registry by blast
    let ?w1 = "w\<lparr>subscribers := s1, arrays := a1, allocated := n1,
                  effects := effects w @ notify_effects key v oldValue [?cb]\<rparr>"
    obtain s2 a2 n2 es where rest: "forEach_from n (Suc k) a (notify_callback key v oldValue) ?w1 =
        Normal (?w1\<lparr>subscribers := s2, arrays := a2, allocated := n2, effects := effects ?w1 @ es\<rparr>)"
      and quiet: "logged_warnings es = []"
      using Suc.IH [of "Suc k" ?w1] by blast
    have "forEach_from (Suc n) k a (notify_callback key v oldValue) w =
        Normal (w\<lparr>subscribers := s2, arrays := a2, allocated := n2,
                  effects := effects w @ (notify_effects key v oldValue [?cb] @ es)\<rparr>)"
      using True one rest by simp
    moreover have "logged_warnings (notify_effects key v oldValue [?cb] @ es) = []"
      using quiet by (simp only: logged_warnings_append logged_warnings_notify_effects) simp
    ultimately show ?thesis by blast
  qed
qed

lemma notifySubscribers_registry:
  "\<exists>subs arrs m es. notifySubscribers key v oldValue w =
       Normal (w\<lparr>subscribers := subs, arrays := arrs, allocated := m, effects := effects w @ es\<rparr>)
     \<and> logged_warnings es = []"
proof (cases "subscribers w key")
  case None
  have "notifySubscribers key v oldValue w =
       Normal (w\<lparr>subscribers := subscribers w, arrays := arrays w, allocated := allocated w,
                 effects := effects w @ []\<rparr>)"
    using None by (simp add: notifySubscribers_def)
  moreover have "logged_warnings [] = []" by simp
  ultimately show ?thesis by blast
next
  case (Some a)
  then show ?thesis
    using forEach_from_registry [of "length (arrays w a)" 0 a key v oldValue w]
    by (simp add: notifySubscribers_def forEach_array_def)
qed

text \<open>
  \<open>setState\<close> returns normally for every key and value: it assigns, persists,
  notifies and emits, in this order.
\<close>

lemma state_set_fields:
  "subscribers (state_set key v w) = subscribers w"
  "arrays (state_set key v w) = arrays w"
  "allocated (state_set key v w) = allocated w"
  "localStorage (state_set key v w) = localStorage w"
  "effects (state_set key v w) = effects w"
  by (simp_all add: state_set_def split: option.splits found.splits)

lemma persistState_eq:
  "persistState key v w
   = Normal (w\<lparr>localStorage := persisted_storage key v (localStorage w),
               effects := effects w @ persist_effects key v\<rparr>)"
  by (simp add: persistState_def persisted_storage_def persist_effects_def setItem_def perform_def)

lemma setState_registry:
  "\<exists>subs arrs m es. setState key v w =
       Normal ((state_set key v w)
                 \<lparr>subscribers := subs, arrays := arrs, allocated := m,
                  localStorage := persisted_storage key v (localStorage w),
                  effects := effects w @ persist_effects key v @ es
                    @ [Emit (js ''state:changed'') (changed_payload key v (state_get w key))]\<rparr>)
     \<and> logged_warnings es = []"
proof -
  let ?w2 = "(state_set key v w)\<lparr>localStorage := persisted_storage key v (localStorage w),
               effects := effects w @ persist_effects key v\<rparr>"
  obtain s a m es where n: "notifySubscribers key v (state_get w key) ?w2 =
       Normal (?w2\<lparr>subscribers := s, arrays := a, allocated := m, effects := effects ?w2 @ es\<rparr>)"
    and quiet: "logged_warnings es = []"
    using notifySubscribers_registry by blast
  have "setState key v w =
       Normal ((state_set key v w)
                 \<lparr>subscribers := s, arrays := a, allocated := m,
                  localStorage := persisted_storage key v (localStorage w),
                  effects := effects w @ persist_effects key v @ es
                    @ [Emit (js ''state:changed'') (changed_payload key v (state_get w key))]\<rparr>)"
    by (simp add: setState_def Let_def persistState_eq state_set_fields n emit_def perform_def)
  with quiet show ?thesis by blast
qed

lemma setState_Normal: "setState key v w = Normal (after (setState key v w))"
  using setState_registry [of key v w] by auto

lemma state_after_setState:
  "state (after (setState key v w)) = state (state_set key v w)"
  "state_prototype (after (setState key v w)) = state_prototype (state_set key v w)"
  "localStorage (after (setState key v w)) = persisted_storage key v (localStorage w)"
  using setState_registry [of key v w] by auto

lemma state_get_cong:
  "state w' = state w \<Longrightarrow> state_prototype w' = state_prototype w \<Longrightarrow> state_get w' k = state_get w k"
  by (simp add: state_get_def state_chain_def cong: found.case_cong)

lemma state_get_after_setState:
  "state_get (after (setState key v w)) k = state_get (state_set key v w) k"
  by (rule state_get_cong) (simp_all add: state_after_setState)


section \<open>Properties of the ThemeManager\<close>

lemma getCurrentTheme_setState:
  "getCurrentTheme (after (setState (js ''theme'') v w)) = v"
  by (simp add: getCurrentTheme_def getState_def state_get_after_setState state_get_set_same)





lemma setTheme_normal: "setTheme theme w = Normal (after (setTheme theme w))"
  by (simp add: setTheme_def console_warn_def setState_Normal [symmetric])

lemma getCurrentTheme_setTheme:
  "getCurrentTheme (after (setTheme theme w)) =
     (if theme = JStr (js ''light'') \<or> theme = JStr (js ''dark'') then theme else JStr (js ''light''))"
  by (auto simp: setTheme_def console_warn_def getCurrentTheme_setState)

lemma toggleTheme_normal: "toggleTheme w = Normal (after (toggleTheme w))"
  by (simp add: toggleTheme_def Let_def setTheme_normal [symmetric])

lemma getCurrentTheme_toggleTheme:
  "getCurrentTheme (after (toggleTheme w)) =
     (if getCurrentTheme w = JStr (js ''dark'') then JStr (js ''light'') else JStr (js ''dark''))"
  by (simp add: toggleTheme_def Let_def getCurrentTheme_setTheme) (simp add: getCurrentTheme_def)

lemma toggle_twice_eq:
  "andThen (toggleTheme w) toggleTheme = Normal (after (toggleTheme (after (toggleTheme w))))"
proof -
  have "andThen (toggleTheme w) toggleTheme = andThen (Normal (after (toggleTheme w))) toggleTheme"
    using toggleTheme_normal [of w] by simp
  also have "\<dots> = toggleTheme (after (toggleTheme w))" by simp
  also have "\<dots> = Normal (after (toggleTheme (after (toggleTheme w))))" by (rule toggleTheme_normal)
  finally show ?thesis .
qed

lemma state_get_loadPersistedState_theme:
  "state_get (loadPersistedState w) (js ''theme'') =
     (case localStorage w (js ''portfolio-theme'') of
        None \<Rightarrow> state_get w (js ''theme'')
      | Some t \<Rightarrow> if t \<noteq> [] then JStr t else state_get w (js ''theme''))"
  by (simp add: loadPersistedState_def state_get_set_same state_get_set_other state_set_fields
        Let_def split: option.splits)

lemma getCurrentTheme_new:
  "getCurrentTheme (StateManager_new storage) =
     (case storage (js ''portfolio-theme'') of
        None \<Rightarrow> JStr (js ''light'')
      | Some t \<Rightarrow> if t \<noteq> [] then JStr t else JStr (js ''light''))"
proof -
  have "state_get \<lparr>state = constructor_state, state_prototype = JBuiltin ObjectPrototype,
        subscribers = Map.empty, arrays = (\<lambda>a. []), allocated = 0,
        localStorage = storage, effects = []\<rparr> (js ''theme'') = JStr (js ''light'')"
    by (simp add: state_get_def state_chain_def constructor_state_def own_member_def)
  then show ?thesis
    by (simp add: StateManager_new_def getCurrentTheme_def getState_def
          state_get_loadPersistedState_theme split: option.splits)
qed

lemma getCurrentTheme_new_empty: "getCurrentTheme (StateManager_new Map.empty) = JStr (js ''light'')"
  by (simp add: getCurrentTheme_new)

lemma getCurrentTheme_new_blue: "getCurrentTheme (StateManager_new stored_blue) = JStr (js ''blue'')"
  by (simp add: getCurrentTheme_new stored_blue_def)

text \<open>
  Claim C5, as amended. From every state whose theme is \<open>'light'\<close> or \<open>'dark'\<close>, two
  consecutive calls of \<open>toggleTheme\<close> complete normally and return the theme to the
  value it had before the first call.
\<close>

theorem toggleTheme_twice:
  assumes "getCurrentTheme w = JStr (js ''light'') \<or> getCurrentTheme w = JStr (js ''dark'')"
  shows "\<exists>w1 w2. toggleTheme w = Normal w1 \<and> toggleTheme w1 = Normal w2
            \<and> getCurrentTheme w2 = getCurrentTheme w"
proof -
  let ?w1 = "after (toggleTheme w)"
  let ?w2 = "after (toggleTheme ?w1)"
  have "getCurrentTheme ?w2 = getCurrentTheme w"
    using assms by (auto simp: getCurrentTheme_toggleTheme)
  moreover have "toggleTheme w = Normal ?w1" by (rule toggleTheme_normal)
  moreover have "toggleTheme ?w1 = Normal ?w2" by (rule toggleTheme_normal)
  ultimately show ?thesis by blast
qed

theorem toggleTheme_twice_witness:
  "getCurrentTheme (StateManager_new Map.empty) = JStr (js ''light'')
   \<and> (\<exists>w1 w2. toggleTheme (StateManager_new Map.empty) = Normal w1 \<and> toggleTheme w1 = Normal w2
          \<and> getCurrentTheme w2 = JStr (js ''light''))"
  using toggleTheme_twice [of "StateManager_new Map.empty"]
  by (simp add: getCurrentTheme_new_empty)

text \<open>
  As stated for every starting state, claim C5 fails: started on a storage that holds
  \<open>'blue'\<close> under \<open>portfolio-theme\<close>, the constructor makes \<open>'blue'\<close> the theme;
  the first toggle gives \<open>'dark'\<close> and the second \<open>'light'\<close>.
\<close>

theorem toggleTheme_twice_counterexample:
  "getCurrentTheme (StateManager_new stored_blue) = JStr (js ''blue'')
   \<and> getCurrentTheme (after (andThen (toggleTheme (StateManager_new stored_blue)) toggleTheme))
       = JStr (js ''light'')
   \<and> getCurrentTheme (after (andThen (toggleTheme (StateManager_new stored_blue)) toggleTheme))
       \<noteq> getCurrentTheme (StateManager_new stored_blue)"
  by (simp add: toggle_twice_eq getCurrentTheme_toggleTheme getCurrentTheme_new_blue)

section \<open>Properties of reset and of runs of operations\<close>

lemma own_theme: "map_of (state w) k = Some v \<Longrightarrow> state_get w k = v"
  by (simp add: state_get_def state_chain_def own_member_def)

lemma map_of_state_set_same:
  "key \<noteq> js ''__proto__'' \<Longrightarrow> map_of (state (state_set key v w)) key = Some v"
  by (simp add: state_set_ordinary update_conv')

lemma map_of_state_set_other:
  "k \<noteq> key \<Longrightarrow> map_of (state (state_set key v w)) k = map_of (state w) k"
  by (simp add: state_set_def update_conv' split: option.splits found.splits)

lemma forEach_notify_reset:
  "\<exists>subs arrs m es. forEach notify_reset ks w =
       Normal (w\<lparr>subscribers := subs, arrays := arrs, allocated := m, effects := effects w @ es\<rparr>)
     \<and> logged_warnings es = []"
proof (induction ks arbitrary: w)
  case Nil
  have "forEach notify_reset [] w =
       Normal (w\<lparr>subscribers := subscribers w, arrays := arrays w, allocated := allocated w,
                 effects := effects w @ []\<rparr>)" by simp
  moreover have "logged_warnings [] = []" by simp
  ultimately show ?case by blast
next
  case (Cons k ks)
  obtain s1 a1 n1 es1 where one: "notify_reset k w =
       Normal (w\<lparr>subscribers := s1, arrays := a1, allocated := n1, effects := effects w @ es1\<rparr>)"
    and q1: "logged_warnings es1 = []"
    using notifySubscribers_registry [of k "state_get w k" JUndefined w]
    by (auto simp: notify_reset_def)
  let ?w1 = "w\<lparr>subscribers := s1, arrays := a1, allocated := n1, effects := effects w @ es1\<rparr>"
  obtain s2 a2 n2 es2 where rest: "forEach notify_reset ks ?w1 =
       Normal (?w1\<lparr>subscribers := s2, arrays := a2, allocated := n2, effects := effects ?w1 @ es2\<rparr>)"
    and q2: "logged_warnings es2 = []"
    using Cons.IH [of ?w1] by blast
  have "forEach notify_reset (k # ks) w =
       Normal (w\<lparr>subscribers := s2, arrays := a2, allocated := n2, effects := effects w @ (es1 @ es2)\<rparr>)"
    using one rest by simp
  moreover have "logged_warnings (es1 @ es2) = []" using q1 q2 by (simp add: logged_warnings_append)
  ultimately show ?case by blast
qed

lemma reset_registry:
  "\<exists>subs arrs m es. reset w =
       Normal (w\<lparr>state := reset_state, state_prototype := JBuiltin ObjectPrototype,
                 subscribers := subs, arrays := arrs, allocated := m,
                 localStorage := (localStorage w)(js ''portfolio-theme'' := None, js ''portfolio-lang'' := None),
                 effects := effects w
                   @ [RemoveItem (js ''portfolio-theme''), RemoveItem (js ''portfolio-lang'')]
                   @ es @ [Emit (js ''state:reset'') JUndefined]\<rparr>)
     \<and> logged_warnings es = []"
proof -
  let ?w3 = "w\<lparr>state := reset_state, state_prototype := JBuiltin ObjectPrototype,
               localStorage := (localStorage w)(js ''portfolio-theme'' := None, js ''portfolio-lang'' := None),
               effects := effects w
                   @ [RemoveItem (js ''portfolio-theme''), RemoveItem (js ''portfolio-lang'')]\<rparr>"
  obtain s a m es where n: "forEach notify_reset (map fst reset_state) ?w3 =
       Normal (?w3\<lparr>subscribers := s, arrays := a, allocated := m, effects := effects ?w3 @ es\<rparr>)"
    and quiet: "logged_warnings es = []"
    using forEach_notify_reset by blast
  have "reset w =
       Normal (w\<lparr>state := reset_state, state_prototype := JBuiltin ObjectPrototype,
                 subscribers := s, arrays := a, allocated := m,
                 localStorage := (localStorage w)(js ''portfolio-theme'' := None, js ''portfolio-lang'' := None),
                 effects := effects w
                   @ [RemoveItem (js ''portfolio-theme''), RemoveItem (js ''portfolio-lang'')]
                   @ es @ [Emit (js ''state:reset'') JUndefined]\<rparr>)"
    by (simp add: reset_def Let_def removeItem_def perform_def n emit_def)
  with quiet show ?thesis by blast
qed

lemma state_after_reset:
  "state (after (reset w)) = reset_state"
  "state_prototype (after (reset w)) = JBuiltin ObjectPrototype"
  using reset_registry [of w] by auto

lemma state_subscribe: "state (subscribe key cb w) = state w"
  using subscribe_registry [of key cb w] by auto

lemma state_unsubscribe: "state (unsubscribe key cb w) = state w"
  using unsubscribe_id_registry [of key "cb_id cb" w] by (auto simp: unsubscribe_def)

lemma state_after_setTheme:
  "map_of (state (after (setTheme theme w))) (js ''theme'') =
     Some (if theme = JStr (js ''light'') \<or> theme = JStr (js ''dark'') then theme else JStr (js ''light''))"
  by (auto simp: setTheme_def console_warn_def state_after_setState map_of_state_set_same)

lemma theme_own_apply_operation:
  assumes own: "map_of (state w) (js ''theme'') = Some v"
    and ok: "v = JStr (js ''light'') \<or> v = JStr (js ''dark'')"
    and op: "\<not> writes_invalid_theme op"
  shows "\<exists>v'. map_of (state (apply_operation op w)) (js ''theme'') = Some v'
            \<and> (v' = JStr (js ''light'') \<or> v' = JStr (js ''dark''))"
proof (cases op)
  case (SetTheme theme)
  then show ?thesis by (auto simp: state_after_setTheme)
next
  case ToggleTheme
  then show ?thesis by (auto simp: toggleTheme_def Let_def state_after_setTheme)
next
  case (SetState key x)
  show ?thesis
  proof (cases "key = js ''theme''")
    case True
    with op SetState have "x = JStr (js ''light'') \<or> x = JStr (js ''dark'')" by auto
    with True SetState show ?thesis
      by (auto simp: state_after_setState map_of_state_set_same)
  next
    case False
    with SetState own ok show ?thesis
      by (auto simp: state_after_setState map_of_state_set_other)
  qed
next
  case Reset
  then show ?thesis by (simp add: state_after_reset) (simp add: reset_state_def)
next
  case (Subscribe key cb)
  with own ok show ?thesis by (simp add: state_subscribe)
next
  case (Unsubscribe key cb)
  with own ok show ?thesis by (simp add: state_unsubscribe)
qed

lemma theme_own_fold:
  "map_of (state w) (js ''theme'') = Some v \<Longrightarrow> v = JStr (js ''light'') \<or> v = JStr (js ''dark'')
   \<Longrightarrow> list_all (\<lambda>op. \<not> writes_invalid_theme op) ops
   \<Longrightarrow> \<exists>v'. map_of (state (fold apply_operation ops w)) (js ''theme'') = Some v'
            \<and> (v' = JStr (js ''light'') \<or> v' = JStr (js ''dark''))"
proof (induction ops arbitrary: w v)
  case Nil
  then show ?case by simp
next
  case (Cons op ops)
  from Cons.prems have "\<not> writes_invalid_theme op"
    and rest: "list_all (\<lambda>op. \<not> writes_invalid_theme op) ops" by simp_all
  from theme_own_apply_operation [OF Cons.prems(1) Cons.prems(2) this(1)]
  obtain v' where "map_of (state (apply_operation op w)) (js ''theme'') = Some v'"
    and "v' = JStr (js ''light'') \<or> v' = JStr (js ''dark'')" by blast
  from Cons.IH [OF this rest] show ?case by simp
qed

lemma state_loadPersistedState_theme:
  "map_of (state w) (js ''theme'') = Some v \<Longrightarrow>
   map_of (state (loadPersistedState w)) (js ''theme'') =
     Some (case localStorage w (js ''portfolio-theme'') of
             None \<Rightarrow> v
           | Some t \<Rightarrow> if t \<noteq> [] then JStr t else v)"
  by (simp add: loadPersistedState_def Let_def map_of_state_set_same map_of_state_set_other
        state_set_fields split: option.splits)

lemma theme_own_new:
  "stored_theme_ok storage \<Longrightarrow>
   \<exists>v. map_of (state (StateManager_new storage)) (js ''theme'') = Some v
      \<and> (v = JStr (js ''light'') \<or> v = JStr (js ''dark''))"
proof -
  assume ok: "stored_theme_ok storage"
  let ?w = "\<lparr>state = constructor_state, state_prototype = JBuiltin ObjectPrototype,
        subscribers = Map.empty, arrays = (\<lambda>a. []), allocated = 0,
        localStorage = storage, effects = []\<rparr>"
  have "map_of (state ?w) (js ''theme'') = Some (JStr (js ''light''))"
    by (simp add: constructor_state_def)
  from state_loadPersistedState_theme [OF this] ok show ?thesis
    by (auto simp: StateManager_new_def stored_theme_ok_def split: option.splits)
qed

text \<open>
  Claim C7, as amended. Started on a storage whose theme entry is missing, empty,
  \<open>'light'\<close> or \<open>'dark'\<close>, and run through any sequence of \<open>setTheme\<close>,
  \<open>toggleTheme\<close>, \<open>reset\<close>, \<open>subscribe\<close>, \<open>unsubscribe\<close> and \<open>setState\<close>
  in which no \<open>setState('theme', v)\<close> has a \<open>v\<close> other than \<open>'light'\<close> and
  \<open>'dark'\<close>, the theme is one of \<open>'light'\<close> and \<open>'dark'\<close>. Direct writes of
  \<open>'light'\<close> or \<open>'dark'\<close> to the theme, and direct writes of anything to other keys
  (\<open>__proto__\<close> among them), are part of the runs.
\<close>

theorem theme_invariant:
  "stored_theme_ok storage \<Longrightarrow> list_all (\<lambda>op. \<not> writes_invalid_theme op) ops
   \<Longrightarrow> theme_ok (run_operations ops (StateManager_new storage))"
proof -
  assume s: "stored_theme_ok storage" and o: "list_all (\<lambda>op. \<not> writes_invalid_theme op) ops"
  from theme_own_new [OF s] obtain v
    where "map_of (state (StateManager_new storage)) (js ''theme'') = Some v"
      and "v = JStr (js ''light'') \<or> v = JStr (js ''dark'')" by blast
  from theme_own_fold [OF this o] obtain v'
    where "map_of (state (fold apply_operation ops (StateManager_new storage))) (js ''theme'') = Some v'"
      and "v' = JStr (js ''light'') \<or> v' = JStr (js ''dark'')" by blast
  then show ?thesis
    by (auto simp: theme_ok_def run_operations_def getCurrentTheme_def getState_def own_theme)
qed

theorem theme_invariant_witness:
  "stored_theme_ok Map.empty
   \<and> list_all (\<lambda>op. \<not> writes_invalid_theme op)
        [ToggleTheme, SetState (js ''theme'') (JStr (js ''dark'')),
         SetState (js ''language'') (JStr (js ''en'')), SetTheme (JStr (js ''blue''))]
   \<and> theme_ok (run_operations
        [ToggleTheme, SetState (js ''theme'') (JStr (js ''dark'')),
         SetState (js ''language'') (JStr (js ''en'')), SetTheme (JStr (js ''blue''))]
        (StateManager_new Map.empty))"
proof -
  have a: "stored_theme_ok Map.empty" by (simp add: stored_theme_ok_def)
  have b: "list_all (\<lambda>op. \<not> writes_invalid_theme op)
        [ToggleTheme, SetState (js ''theme'') (JStr (js ''dark'')),
         SetState (js ''language'') (JStr (js ''en'')), SetTheme (JStr (js ''blue''))]"
    by simp
  from a b theme_invariant [OF a b] show ?thesis by (simp only: simp_thms)
qed

text \<open>
  As stated, claim C7 fails on both paths it names: the constructor copies a stored
  \<open>'blue'\<close> into the theme, and \<open>setState('theme', 'blue')\<close> stores \<open>'blue'\<close>.
\<close>

theorem theme_invariant_counterexample:
  "\<not> theme_ok (StateManager_new stored_blue)
   \<and> \<not> theme_ok (after (setState (js ''theme'') (JStr (js ''blue'')) (StateManager_new Map.empty)))"
  by (simp add: theme_ok_def getCurrentTheme_new_blue getCurrentTheme_setState)

text \<open>
  Claim C8. \<open>reset\<close> makes the state a new object, removes the two storage entries,
  runs the notification of each of the five keys with the restored value and
  \<open>undefined\<close>, and emits \<open>state:reset\<close> (lemma \<open>reset_registry\<close>). The state it
  restores is not the state of the constructor: after \<open>reset\<close> the language is
  \<open>'en'\<close>, while a StateManager constructed on an empty storage has the language
  \<open>'ko'\<close>.
\<close>

theorem reset_language_differs_from_constructor:
  "getState (js ''language'') (after (reset w)) = JStr (js ''en'')
   \<and> getState (js ''language'') (StateManager_new Map.empty) = JStr (js ''ko'')"
proof -
  have "map_of (state (after (reset w))) (js ''language'') = Some (JStr (js ''en''))"
    by (simp add: state_after_reset) (simp add: reset_state_def)
  moreover have "map_of (state (StateManager_new Map.empty)) (js ''language'') = Some (JStr (js ''ko''))"
    by (simp add: StateManager_new_def loadPersistedState_def constructor_state_def)
  ultimately show ?thesis by (simp add: getState_def own_theme)
qed

section \<open>Where setState and the notification miss their contract\<close>

lemma new_empty:
  "StateManager_new Map.empty =
     \<lparr>state = constructor_state, state_prototype = JBuiltin ObjectPrototype,
      subscribers = Map.empty, arrays = (\<lambda>a. []), allocated = 0,
      localStorage = Map.empty, effects = []\<rparr>"
  by (simp add: StateManager_new_def loadPersistedState_def)

lemma proto_not_method: "js ''__proto__'' \<notin> set object_prototype_methods"
  by (simp add: object_prototype_methods_def)

lemma state_set_proto_primitive:
  "state_set (js ''__proto__'') (JStr s) (StateManager_new Map.empty) = StateManager_new Map.empty"
  by (simp add: new_empty state_set_def constructor_state_def own_member_def proto_not_method)

lemma state_get_proto_new:
  "state_get (StateManager_new Map.empty) (js ''__proto__'') = JBuiltin ObjectPrototype"
  by (simp add: new_empty state_get_def state_chain_def constructor_state_def own_member_def
        proto_not_method)

text \<open>
  Claim C1 fails at the key \<open>__proto__\<close>. On a new StateManager,
  \<open>setState('__proto__', 'x')\<close> returns normally, but the assignment
  \<open>this.state[key] = value\<close> goes to the setter that \<open>Object.prototype\<close> gives
  every object, which ignores a value that is neither an object nor \<open>null\<close>:
  \<open>state['__proto__']\<close> is still \<open>Object.prototype\<close> and not \<open>'x'\<close>. The method
  is documented as setting the state value of the key; it uses a plain object as a
  map from keys to values and misses the one name that a plain object does not store.
\<close>

theorem setState_proto_not_overwritten:
  "setState (js ''__proto__'') (JStr (js ''x'')) (StateManager_new Map.empty)
     = Normal (after (setState (js ''__proto__'') (JStr (js ''x'')) (StateManager_new Map.empty)))
   \<and> getState (js ''__proto__'')
        (after (setState (js ''__proto__'') (JStr (js ''x'')) (StateManager_new Map.empty)))
       = JBuiltin ObjectPrototype
   \<and> getState (js ''__proto__'')
        (after (setState (js ''__proto__'') (JStr (js ''x'')) (StateManager_new Map.empty)))
       \<noteq> JStr (js ''x'')"
  using setState_Normal [of "js ''__proto__''" "JStr (js ''x'')" "StateManager_new Map.empty"]
  by (simp add: getState_def state_get_after_setState state_set_proto_primitive state_get_proto_new)

lemma invocations_append: "invocations (xs @ ys) = invocations xs @ invocations ys"
  by (induction xs rule: invocations.induct) simp_all

lemma two_subscribers_eq:
  "two_subscribers =
     \<lparr>state = constructor_state, state_prototype = JBuiltin ObjectPrototype,
      subscribers = [js ''theme'' \<mapsto> 0],
      arrays = (\<lambda>a. [])(0 := [leaving_subscriber, plain_subscriber]), allocated = Suc 0,
      localStorage = Map.empty, effects = []\<rparr>"
  by (simp add: two_subscribers_def new_empty subscribe_def)

lemma notify_two_subscribers:
  "notifySubscribers (js ''theme'') v oldValue (two_subscribers\<lparr>localStorage := st, state := s, effects := es\<rparr>) =
     Normal \<lparr>state = s, state_prototype = JBuiltin ObjectPrototype,
      subscribers = [js ''theme'' \<mapsto> 0],
      arrays = (\<lambda>a. [])(0 := [plain_subscriber]), allocated = Suc 0,
      localStorage = st,
      effects = es @ [Invoke 0 v oldValue,
                      ConsoleError (subscriber_error_message (js ''theme'')) (Error (js ''done''))]\<rparr>"
  by (simp add: two_subscribers_eq notifySubscribers_def forEach_array_def numeral_2_eq_2
        notify_callback_def call_def perform_def leaving_subscriber_def plain_subscriber_def
        unsubscribe_id_def console_error_def Let_def)

text \<open>
  Claim C2 fails when a subscriber unsubscribes during the notification. With two
  subscribers of \<open>theme\<close>, the first calling its unsubscribe handle and then throwing,
  \<open>setState('theme', 'dark')\<close> returns normally and logs the thrown value, but the
  second subscriber is never invoked: \<open>unsubscribe\<close> splices the array that
  \<open>forEach\<close> is iterating, the second subscriber moves to index 0, and the loop
  goes on at index 1. The method is documented as notifying all subscribers of the
  change.
\<close>

theorem later_subscriber_skipped:
  "subscribers_of two_subscribers (js ''theme'') = [leaving_subscriber, plain_subscriber]
   \<and> setState (js ''theme'') (JStr (js ''dark'')) two_subscribers
       = Normal (after (setState (js ''theme'') (JStr (js ''dark'')) two_subscribers))
   \<and> invocations (effects (after (setState (js ''theme'') (JStr (js ''dark'')) two_subscribers)))
       = [(cb_id leaving_subscriber, JStr (js ''dark''), JStr (js ''light''))]
   \<and> logged_errors (effects (after (setState (js ''theme'') (JStr (js ''dark'')) two_subscribers)))
       = [Error (js ''done'')]"
proof -
  have old: "state_get two_subscribers (js ''theme'') = JStr (js ''light'')"
    by (simp add: two_subscribers_eq state_get_def state_chain_def constructor_state_def own_member_def)
  have set: "state_set (js ''theme'') (JStr (js ''dark'')) two_subscribers
       = two_subscribers\<lparr>state := AList.update (js ''theme'') (JStr (js ''dark'')) (state two_subscribers)\<rparr>"
    by (simp add: state_set_ordinary)
  have "setState (js ''theme'') (JStr (js ''dark'')) two_subscribers =
     Normal \<lparr>state = AList.update (js ''theme'') (JStr (js ''dark'')) constructor_state,
      state_prototype = JBuiltin ObjectPrototype,
      subscribers = [js ''theme'' \<mapsto> 0],
      arrays = (\<lambda>a. [])(0 := [plain_subscriber]), allocated = Suc 0,
      localStorage = [js ''portfolio-theme'' \<mapsto> js ''dark''],
      effects = [SetItem (js ''portfolio-theme'') (js ''dark''),
                 Invoke 0 (JStr (js ''dark'')) (JStr (js ''light'')),
                 ConsoleError (subscriber_error_message (js ''theme'')) (Error (js ''done'')),
                 Emit (js ''state:changed'')
                   (changed_payload (js ''theme'') (JStr (js ''dark'')) (JStr (js ''light'')))]\<rparr>"
    using notify_two_subscribers [where v = "JStr (js ''dark'')" and oldValue = "JStr (js ''light'')"
        and st = "[js ''portfolio-theme'' \<mapsto> js ''dark'']"
        and s = "AList.update (js ''theme'') (JStr (js ''dark'')) constructor_state"
        and es = "[SetItem (js ''portfolio-theme'') (js ''dark'')]"]
    by (simp add: setState_def Let_def old set persistState_eq persisted_storage_def
          persist_effects_def emit_def perform_def)
       (simp add: two_subscribers_eq)
  then show ?thesis
    by (simp add: subscribers_of_def) (simp add: two_subscribers_eq leaving_subscriber_def)
qed

text \<open>
  Where the contract of \<open>setState\<close> holds. When the subscribers of the key leave the
  registry alone, \<open>setState\<close> adds exactly these effects, in this order: the storage
  write (for \<open>theme\<close> and \<open>language\<close> only), the invocation of every subscriber of
  the key in subscription order, each with the new and the old value and each thrown
  value logged right after the call that threw it, and one \<open>state:changed\<close> event.
  For every key but \<open>__proto__\<close> the value read back is the value written.
\<close>

lemma notify_callback_quiet:
  "leaves_registry v oldValue cb \<Longrightarrow>
   notify_callback key v oldValue cb w
     = Normal (w\<lparr>effects := effects w @ notify_effects key v oldValue [cb]\<rparr>)"
  by (simp add: notify_callback_def call_def leaves_registry_def perform_def console_error_def
        Let_def split: option.splits)

lemma forEach_from_quiet:
  "list_all (leaves_registry v oldValue) (drop k (arrays w a)) \<Longrightarrow>
   length (arrays w a) \<le> k + n \<Longrightarrow>
   forEach_from n k a (notify_callback key v oldValue) w
     = Normal (w\<lparr>effects := effects w @ notify_effects key v oldValue (drop k (arrays w a))\<rparr>)"
proof (induction n arbitrary: k w)
  case 0
  then show ?case by simp
next
  case (Suc n)
  show ?case
  proof (cases "k < length (arrays w a)")
    case False
    with Suc.IH [of "Suc k" w] show ?thesis by simp
  next
    case True
    let ?cb = "arrays w a ! k"
    let ?w1 = "w\<lparr>effects := effects w @ notify_effects key v oldValue [?cb]\<rparr>"
    from True have split: "drop k (arrays w a) = ?cb # drop (Suc k) (arrays w a)"
      by (simp add: Cons_nth_drop_Suc)
    with Suc.prems(1) have quiet: "leaves_registry v oldValue ?cb"
      and rest: "list_all (leaves_registry v oldValue) (drop (Suc k) (arrays ?w1 a))" by simp_all
    from Suc.prems(2) have "length (arrays ?w1 a) \<le> Suc k + n" by simp
    from Suc.IH [OF rest this] notify_callback_quiet [OF quiet, of key w] True split
    show ?thesis by simp
  qed
qed

lemma notifySubscribers_quiet:
  assumes "list_all (leaves_registry v oldValue) (subscribers_of w key)"
  shows "notifySubscribers key v oldValue w
     = Normal (w\<lparr>effects := effects w @ notify_effects key v oldValue (subscribers_of w key)\<rparr>)"
proof (cases "subscribers w key")
  case None
  then show ?thesis by (simp add: notifySubscribers_def subscribers_of_def)
next
  case (Some a)
  with assms have "list_all (leaves_registry v oldValue) (drop 0 (arrays w a))"
    by (simp add: subscribers_of_def)
  from forEach_from_quiet [OF this, of "length (arrays w a)" key] Some
  show ?thesis by (simp add: notifySubscribers_def subscribers_of_def forEach_array_def)
qed

lemma setState_quiet_subscribers:
  assumes "list_all (leaves_registry v (state_get w key)) (subscribers_of w key)"
  shows "setState key v w =
       Normal ((state_set key v w)
                 \<lparr>localStorage := persisted_storage key v (localStorage w),
                  effects := effects w @ persist_effects key v
                    @ notify_effects key v (state_get w key) (subscribers_of w key)
                    @ [Emit (js ''state:changed'') (changed_payload key v (state_get w key))]\<rparr>)"
proof -
  let ?w2 = "(state_set key v w)\<lparr>localStorage := persisted_storage key v (localStorage w),
               effects := effects w @ persist_effects key v\<rparr>"
  have "subscribers_of ?w2 key = subscribers_of w key"
    by (simp add: subscribers_of_def state_set_fields split: option.splits)
  with assms have "list_all (leaves_registry v (state_get w key)) (subscribers_of ?w2 key)" by simp
  from notifySubscribers_quiet [OF this] \<open>subscribers_of ?w2 key = subscribers_of w key\<close>
  show ?thesis
    by (simp add: setState_def Let_def persistState_eq state_set_fields emit_def perform_def)
qed

lemma setState_overwrites:
  "key \<noteq> js ''__proto__'' \<Longrightarrow>
   getState key (after (setState key v w))
     = (if key = [] then JObj (state (state_set key v w)) else v)"
  by (simp add: getState_def state_get_after_setState state_get_set_same state_after_setState)

section \<open>Properties of the I18nManager\<close>

text \<open>
  \<open>key.split('.')\<close>: there is always a segment, joining the segments with dots gives
  the key back, and no segment contains a dot.
\<close>

lemma split_dot_nonempty: "split_dot s \<noteq> []"
  by (induction s) (simp_all split: list.splits)

lemma join_split_dot: "join [0x2E] (split_dot s) = s"
proof (induction s)
  case Nil
  show ?case by simp
next
  case (Cons c cs)
  obtain seg segs where sp: "split_dot cs = seg # segs"
    using split_dot_nonempty [of cs] by (cases "split_dot cs") auto
  with Cons show ?case by (cases segs) auto
qed

lemma split_dot_no_dot: "list_all (\<lambda>seg. 0x2E \<notin> set seg) (split_dot s)"
  by (induction s) (auto split: list.splits)

lemma split_constructor: "split_dot (js ''constructor'') = [js ''constructor'']"
  by (simp add: js_def)

lemma split_a_push: "split_dot (js ''a.push'') = [js ''a'', js ''push'']"
  by (simp add: js_def)

lemma split_abc: "split_dot (js ''a.b.c'') = [js ''a'', js ''b'', js ''c'']"
  by (simp add: js_def)

text \<open>
  Claim C3 fails for segments that name an inherited member. The test \<open>k in value\<close>
  is also true of what the value inherits from \<open>Object.prototype\<close> or
  \<open>Array.prototype\<close>: on the bundle \<open>{}\<close>, \<open>t('constructor', 'X')\<close> returns
  the function \<open>Object\<close> and not \<open>'X'\<close>, and on \<open>{a: []}\<close>,
  \<open>t('a.push', 'X')\<close> returns the function \<open>push\<close>, though neither segment is in
  the bundle. The method is documented as returning the translation value or the
  fallback. For a segment that no prototype has, the fallback is returned:
  \<open>t('a.b.c', 'X')\<close> is \<open>'X'\<close> on \<open>{}\<close>.
\<close>

theorem t_returns_inherited_member:
  "I18nManager_t (JObj []) (js ''constructor'') (JStr (js ''X''))
     = JBuiltin (ObjectMethod (js ''constructor''))
   \<and> I18nManager_t (JObj []) (js ''constructor'') (JStr (js ''X'')) \<noteq> JStr (js ''X'')
   \<and> I18nManager_t (JObj [(js ''a'', JArr [])]) (js ''a.push'') (JStr (js ''X''))
     = JBuiltin (ArrayMethod (js ''push''))
   \<and> I18nManager_t (JObj []) (js ''a.b.c'') (JStr (js ''X'')) = JStr (js ''X'')"
  by (simp add: I18nManager_t_def split_constructor split_a_push split_abc has_in_def member_def
        lookup_def own_member_def object_prototype_methods_def array_prototype_methods_def)

text \<open>The steps of \<open>loadTranslations\<close>, written out.\<close>

lemma state_get_effects [simp]: "state_get (w\<lparr>effects := es\<rparr>) k = state_get w k"
  by (rule state_get_cong) simp_all



lemma translations_not_proto: "js ''translations'' \<noteq> js ''__proto__''"
  by simp




















text \<open>
  Outside the two conditions of the amended claim the call writes nothing: while a load
  is in progress it returns at once and leaves the I18nManager as it is, and when one
  of its requests never settles it never returns.
\<close>

lemma fetch_loop_unsettled:
  "\<not> settles fetch paths \<Longrightarrow>
   fetch_loop fetch paths response lastError = None
   \<or> (\<exists>r le. fetch_loop fetch paths response lastError = Some (Some r, le)
          \<and> ok r \<and> body r = Stalls)"
proof (induction paths arbitrary: response lastError)
  case Nil
  then show ?case by simp
next
  case (Cons path paths)
  show ?case
  proof (cases "fetch path")
    case Hangs
    then show ?thesis by simp
  next
    case (Rejects error)
    with Cons.prems have "\<not> settles fetch paths" by simp
    from Cons.IH [OF this, of response error] Rejects show ?thesis by simp
  next
    case (Resolves r)
    show ?thesis
    proof (cases "ok r")
      case True
      with Resolves Cons.prems show ?thesis by simp
    next
      case False
      with Resolves Cons.prems have "\<not> settles fetch paths" by simp
      from Cons.IH [OF this] Resolves False show ?thesis by simp
    qed
  qed
qed

lemma load_try_unsettled:
  "\<not> settles fetch (possiblePaths lang) \<Longrightarrow> load_try fetch lang m = None"
  using fetch_loop_unsettled [of fetch "possiblePaths lang" None JUndefined]
  by (auto simp: load_try_def)

lemma loadTranslations_never_returns:
  "\<not> isLoading m \<Longrightarrow> \<not> settles fetch (possiblePaths (lang_or_default lang_arg)) \<Longrightarrow>
   loadTranslations fetch lang_arg m = None"
  by (simp add: loadTranslations_def Let_def in_window_def emit_def perform_def load_try_unsettled)

lemma loadTranslations_busy:
  "isLoading m \<Longrightarrow> loadTranslations fetch lang_arg m = Some (Normal m)"
  by (simp add: loadTranslations_def Let_def)

section \<open>Properties of the BlogManager\<close>

lemma has_tag_append:
  "has_tag (xs @ ys) \<longleftrightarrow> has_tag xs \<or> has_tag ys \<or> (0x3C \<in> set xs \<and> 0x3E \<in> set ys)"
  by (induction xs) auto

lemma has_tag_infix: "\<not> has_tag (a @ s @ b) \<Longrightarrow> \<not> has_tag s"
  by (simp add: has_tag_append)

lemma has_tag_imp_gt: "has_tag s \<Longrightarrow> 0x3E \<in> set s"
  by (induction s) auto

lemma strip_tags_no_tag: "\<not> has_tag (strip_tags s)"
proof (induction s rule: strip_tags.induct)
  case 1
  show ?case by simp
next
  case (2 c cs)
  show ?case
  proof (cases "c = 0x3C \<and> 0x3E \<in> set cs")
    case True
    with 2 show ?thesis by simp
  next
    case False
    have sub: "0x3E \<in> set (strip_tags cs) \<Longrightarrow> 0x3E \<in> set cs" for cs :: jsstring
    proof (induction cs rule: strip_tags.induct)
      case 1
      then show ?case by simp
    next
      case (2 c cs)
      then show ?case
        by (auto split: if_splits dest!: list.set_sel(2) [rotated] set_dropWhileD)
    qed
    from False 2 show ?thesis by (auto dest: sub)
  qed
qed

lemma trim_infix: "\<exists>a b. s = a @ trim s @ b"
proof -
  let ?d = "dropWhile is_space s"
  have 1: "s = takeWhile is_space s @ ?d" by simp
  have "rev ?d = takeWhile is_space (rev ?d) @ dropWhile is_space (rev ?d)" by simp
  then have "?d = rev (dropWhile is_space (rev ?d)) @ rev (takeWhile is_space (rev ?d))"
    by (metis rev_append rev_rev_ident)
  then have "?d = trim s @ rev (takeWhile is_space (rev ?d))" by (simp add: trim_def)
  with 1 have "s = takeWhile is_space s @ trim s @ rev (takeWhile is_space (rev ?d))" by simp
  then show ?thesis by blast
qed

lemma trim_no_tag: "\<not> has_tag s \<Longrightarrow> \<not> has_tag (trim s)"
  using trim_infix [of s] has_tag_infix by metis

lemma length_trim: "length (trim s) \<le> length s"
proof -
  have "length (trim s) = length (dropWhile is_space (rev (dropWhile is_space s)))"
    by (simp add: trim_def)
  also have "\<dots> \<le> length (rev (dropWhile is_space s))" by (rule length_dropWhile_le)
  also have "\<dots> \<le> length s" by (simp add: length_dropWhile_le)
  finally show ?thesis .
qed

lemma take_no_tag: "\<not> has_tag s \<Longrightarrow> \<not> has_tag (take n s)"
  using has_tag_infix [of "[]" "take n s" "drop n s"] by simp

lemma dots_no_tag: "\<not> has_tag s \<Longrightarrow> \<not> has_tag (s @ js ''...'')"
  by (simp add: has_tag_append js_def)

lemma clean_no_tag: "\<not> has_tag (cleanHtmlAndTruncate html n)"
  by (simp add: cleanHtmlAndTruncate_def Let_def strip_tags_no_tag trim_no_tag take_no_tag dots_no_tag)

lemma clean_length: "length (cleanHtmlAndTruncate html n) \<le> n + 3"
proof -
  have "length (trim (take n s)) \<le> n" for s :: jsstring
    using length_trim [of "take n s"] by simp
  then show ?thesis by (simp add: cleanHtmlAndTruncate_def Let_def js_def)
qed


lemma digit_0: "digit 0 = 0x30"
  by (simp add: digit_def)

lemma natToString_one: "n < 10 \<Longrightarrow> natToString n = [digit n]"
  by (simp add: natToString.simps)

lemma natToString_two: "10 \<le> n \<Longrightarrow> n < 100 \<Longrightarrow> natToString n = two_digits n"
proof -
  assume a: "10 \<le> n" "n < 100"
  then have "n div 10 < 10" by simp
  then have "natToString (n div 10) = [digit (n div 10)]" by (rule natToString_one)
  with a show ?thesis by (simp add: natToString.simps [of n] two_digits_def)
qed

lemma natToString_nonempty: "natToString n \<noteq> []"
  by (simp add: natToString.simps [of n])

lemma pad_two_digits: "n < 100 \<Longrightarrow> padStart (intToString (int n)) 2 0x30 = two_digits n"
proof (cases "n < 10")
  case True
  then have "n div 10 = 0" by simp
  with True show ?thesis
    by (simp add: padStart_def intToString_def natToString_one two_digits_def digit_0)
next
  case False
  assume "n < 100"
  with False have "natToString n = two_digits n" by (simp add: natToString_two)
  then show ?thesis by (simp add: padStart_def intToString_def two_digits_def)
qed

lemma formatDate_try_eq:
  "formatDate_try newDate s =
     Inr (case newDate s of
            InvalidDate \<Rightarrow> js ''NaN.NaN.NaN''
          | ValidDate y m d \<Rightarrow>
              intToString y @ js ''.'' @ padStart (intToString (int m + 1)) 2 0x30
                @ js ''.'' @ padStart (intToString (int d)) 2 0x30)"
  by (cases "newDate s")
     (simp_all add: formatDate_try_def Let_def numberToString_def padStart_def js_def)

lemma formatDate_eq:
  "formatDate newDate s =
     (case newDate s of
        InvalidDate \<Rightarrow> js ''NaN.NaN.NaN''
      | ValidDate y m d \<Rightarrow>
          intToString y @ js ''.'' @ padStart (intToString (int m + 1)) 2 0x30
            @ js ''.'' @ padStart (intToString (int d)) 2 0x30)"
  by (simp add: formatDate_def formatDate_try_eq)

lemma formatDate_has_dot: "0x2E \<in> set (formatDate newDate s)"
  by (cases "newDate s") (simp_all add: formatDate_eq js_def)

lemma unknown_date_no_dot: "0x2E \<notin> set unknown_date"
  by (simp add: unknown_date_def js_def)

text \<open>
  Claim C10. For every input string the \<open>try\<close> block of \<open>formatDate\<close> completes
  normally, so the \<open>catch\<close> branch is never taken; the result is the year, the
  month plus one and the day of the constructed \<open>Date\<close>, month and day padded to
  two places, joined by dots; for an invalid date this is \<open>NaN.NaN.NaN\<close>; and it is
  never the string of the \<open>catch\<close> branch.
\<close>

theorem formatDate_never_unknown:
  "formatDate_try newDate s = Inr (formatDate newDate s)
   \<and> formatDate newDate s =
       (case newDate s of
          InvalidDate \<Rightarrow> js ''NaN.NaN.NaN''
        | ValidDate y m d \<Rightarrow>
            numberToString (Some y) @ js ''.''
              @ padStart (numberToString (Some (int m + 1))) 2 0x30 @ js ''.''
              @ padStart (numberToString (Some (int d))) 2 0x30)
   \<and> formatDate newDate s \<noteq> unknown_date"
proof -
  have "formatDate newDate s \<noteq> unknown_date"
    using formatDate_has_dot [of newDate s] unknown_date_no_dot by metis
  moreover have "formatDate_try newDate s = Inr (formatDate newDate s)"
    by (simp add: formatDate_def formatDate_try_eq)
  ultimately show ?thesis
    by (cases "newDate s") (simp_all add: formatDate_eq numberToString_def)
qed

lemma formatDate_calendar:
  "calendar_date (newDate s) \<Longrightarrow> formatDate newDate s = ymd (newDate s)"
proof (cases "newDate s")
  case InvalidDate
  assume "calendar_date (newDate s)"
  with InvalidDate show ?thesis by (simp add: calendar_date_def)
next
  case (ValidDate y m d)
  assume "calendar_date (newDate s)"
  with ValidDate have md: "m + 1 < 100" "d < 100" by (simp_all add: calendar_date_def)
  have "int m + 1 = int (m + 1)" by simp
  then have "padStart (intToString (int m + 1)) 2 0x30 = two_digits (m + 1)"
    using pad_two_digits [OF md(1)] by (simp only:)
  with ValidDate pad_two_digits [OF md(2)] show ?thesis
    by (simp add: formatDate_eq ymd_def)
qed

lemma collect_tags: "collect (map tag_of (map JStr cats)) = Inr (map JStr cats)"
  by (induction cats) simp_all

lemma extractTags_strings:
  "extractTags (JArr (map JStr cats)) =
     Inr (if cats = [] then [JStr (js ''Blog'')] else map JStr (take 3 cats))"
  using collect_tags [of "take 3 cats"] by (simp add: extractTags_def take_map)

lemma parse_item_eq:
  "parse_item newDate item =
     Inr \<lparr>title = text_or (item_title item) untitled,
          description = cleanHtmlAndTruncate (text_or (item_description item) []) 150,
          date = formatDate newDate (text_or (item_pubDate item) []),
          link = text_or (item_link item) (js ''#''),
          tags = (if item_categories item = [] then [JStr (js ''Blog'')]
                  else map JStr (take 3 (item_categories item))),
          source = js ''tistory''\<rparr>"
  by (simp add: parse_item_def Let_def extractTags_strings)

lemma collect_Inr: "collect (map (\<lambda>x. Inr (f x)) xs) = Inr (map f xs)"
  by (induction xs) simp_all


text \<open>
  Claim C9, as amended. \<open>parseRssXml\<close> returns one record for each of the first six
  items. Each record has the item's title and link (the defaults when the item has
  none) and the source \<open>tistory\<close>; a description without tags, of at most 150 + 3
  code units, which is the stripped and trimmed text itself when that has at most 150
  code units and otherwise its first 150 code units, trimmed, followed by \<open>...\<close>;
  the tag \<open>Blog\<close> when the item has no categories and otherwise its first three
  categories; and, when the publication date parses to a valid calendar date, that
  date as Y.MM.DD.
\<close>

theorem parseRssXml_posts:
  "\<exists>posts. parseRssXml newDate items = Inr posts
     \<and> length posts = min (length items) 6
     \<and> list_all2 (\<lambda>item p.
            title p = text_or (item_title item) untitled
          \<and> link p = text_or (item_link item) (js ''#'')
          \<and> source p = js ''tistory''
          \<and> \<not> has_tag (description p)
          \<and> length (description p) \<le> 150 + 3
          \<and> description p =
              (let stripped = trim (strip_tags (text_or (item_description item) []))
               in if length stripped \<le> 150 then stripped
                  else trim (take 150 stripped) @ js ''...'')
          \<and> tags p = (if item_categories item = [] then [JStr (js ''Blog'')]
                       else map JStr (take 3 (item_categories item)))
          \<and> length (tags p) \<le> 3
          \<and> (calendar_date (newDate (text_or (item_pubDate item) []))
               \<longrightarrow> date p = ymd (newDate (text_or (item_pubDate item) []))))
          (take 6 items) posts"
proof -
  let ?summary = "\<lambda>item.
       \<lparr>title = text_or (item_title item) untitled,
        description = cleanHtmlAndTruncate (text_or (item_description item) []) 150,
        date = formatDate newDate (text_or (item_pubDate item) []),
        link = text_or (item_link item) (js ''#''),
        tags = (if item_categories item = [] then [JStr (js ''Blog'')]
                else map JStr (take 3 (item_categories item))),
        source = js ''tistory''\<rparr>"
  have "min (length items) maxPosts = min (length items) 6" by (simp add: maxPosts_def)
  moreover have "take (min (length items) 6) items = take 6 items" by (simp add: min_def)
  moreover have "parse_item newDate = (\<lambda>item. Inr (?summary item))"
    by (rule ext) (rule parse_item_eq)
  ultimately have eq: "parseRssXml newDate items = Inr (map ?summary (take 6 items))"
    by (simp add: parseRssXml_def collect_Inr)
  have len: "length (cleanHtmlAndTruncate html 150) \<le> 153" for html
    using clean_length [of html 150] by simp
  show ?thesis
    unfolding eq
    by (simp add: list.rel_map list_all2_same clean_no_tag len formatDate_calendar min.commute)
       (simp add: cleanHtmlAndTruncate_def)
qed


lemma example_calendar:
  "calendar_date (example_Date (text_or (item_pubDate item_complete) []))"
  by (simp add: calendar_date_def example_Date_def text_or_def item_complete_def)

lemma example_ymd:
  "ymd (example_Date (text_or (item_pubDate item_complete) [])) = js ''2024.12.15''"
  by (simp add: ymd_def example_Date_def text_or_def item_complete_def intToString_def
        natToString.simps two_digits_def digit_def js_def)

lemma example_description:
  "trim (strip_tags (text_or (item_description item_complete) [])) = js ''First post''"
  by (simp add: text_or_def item_complete_def js_def trim_def is_space_def)

theorem parseRssXml_posts_witness:
  "calendar_date (example_Date (text_or (item_pubDate item_complete) []))
   \<and> (\<exists>p. parseRssXml example_Date [item_complete] = Inr [p]
          \<and> title p = js ''Hello''
          \<and> description p = js ''First post''
          \<and> date p = js ''2024.12.15''
          \<and> tags p = [JStr (js ''Java''), JStr (js ''Spring''), JStr (js ''JPA'')]
          \<and> source p = js ''tistory'')"
proof -
  obtain posts where parsed: "parseRssXml example_Date [item_complete] = Inr posts"
    and each: "list_all2 (\<lambda>item p.
            title p = text_or (item_title item) untitled
          \<and> link p = text_or (item_link item) (js ''#'')
          \<and> source p = js ''tistory''
          \<and> \<not> has_tag (description p)
          \<and> length (description p) \<le> 150 + 3
          \<and> description p =
              (let stripped = trim (strip_tags (text_or (item_description item) []))
               in if length stripped \<le> 150 then stripped
                  else trim (take 150 stripped) @ js ''...'')
          \<and> tags p = (if item_categories item = [] then [JStr (js ''Blog'')]
                       else map JStr (take 3 (item_categories item)))
          \<and> length (tags p) \<le> 3
          \<and> (calendar_date (example_Date (text_or (item_pubDate item) []))
               \<longrightarrow> date p = ymd (example_Date (text_or (item_pubDate item) []))))
          (take 6 [item_complete]) posts"
    using parseRssXml_posts [of example_Date "[item_complete]"] by blast
  from each obtain p where p: "posts = [p]"
    and t: "title p = text_or (item_title item_complete) untitled"
    and s: "source p = js ''tistory''"
    and d: "description p =
              (let stripped = trim (strip_tags (text_or (item_description item_complete) []))
               in if length stripped \<le> 150 then stripped
                  else trim (take 150 stripped) @ js ''...'')"
    and g: "tags p = (if item_categories item_complete = [] then [JStr (js ''Blog'')]
                       else map JStr (take 3 (item_categories item_complete)))"
    and dt: "calendar_date (example_Date (text_or (item_pubDate item_complete) []))
               \<longrightarrow> date p = ymd (example_Date (text_or (item_pubDate item_complete) []))"
    by (auto simp: list_all2_Cons1)
  from dt example_calendar have "date p = js ''2024.12.15''" by (simp add: example_ymd)
  moreover from d have "description p = js ''First post''"
    by (simp add: example_description Let_def) (simp add: js_def)
  moreover from t have "title p = js ''Hello''" by (simp add: text_or_def item_complete_def)
  moreover from g have "tags p = [JStr (js ''Java''), JStr (js ''Spring''), JStr (js ''JPA'')]"
    by (simp add: item_complete_def)
  ultimately show ?thesis using parsed p s example_calendar by simp
qed

lemma description_without_pubDate:
  "cleanHtmlAndTruncate (text_or (item_description item_without_pubDate) []) 150 = js ''First post''"
  by (simp add: cleanHtmlAndTruncate_def text_or_def item_without_pubDate_def js_def trim_def
        is_space_def)

text \<open>
  As stated for every record, claim C9 fails on the date: an item without a
  \<open>pubDate\<close> element gives a record whose date is \<open>NaN.NaN.NaN\<close>.
\<close>

theorem parseRssXml_date_counterexample:
  "parseRssXml example_Date [item_without_pubDate] =
     Inr [\<lparr>title = js ''Hello'', description = js ''First post'', date = js ''NaN.NaN.NaN'',
           link = js ''https://arex.tistory.com/1'', tags = [JStr (js ''Blog'')],
           source = js ''tistory''\<rparr>]"
proof -
  have "parse_item example_Date item_without_pubDate =
     Inr \<lparr>title = js ''Hello'', description = js ''First post'', date = js ''NaN.NaN.NaN'',
           link = js ''https://arex.tistory.com/1'', tags = [JStr (js ''Blog'')],
           source = js ''tistory''\<rparr>"
    by (simp add: parse_item_eq description_without_pubDate formatDate_eq)
       (simp add: text_or_def item_without_pubDate_def example_Date_def)
  then show ?thesis by (simp add: parseRssXml_def maxPosts_def)
qed

end
